theory Spec2Isabelle
  imports Main
begin

section \<open>Python values\<close>

text \<open>
  A Python \<^verbatim>\<open>str\<close> is a sequence of Unicode code points: \<^verbatim>\<open>len\<close> and slicing count code
  points, not bytes. A string is therefore a list of code points; \<open>lit\<close> turns an ASCII
  literal of the source into such a list.
\<close>

type_synonym pystr = "nat list"

definition lit :: "string \<Rightarrow> pystr" where
  "lit s = map of_char s"

text \<open>The characters that \<^verbatim>\<open>str.strip()\<close> removes (those with \<^verbatim>\<open>str.isspace()\<close>).\<close>

definition py_isspace :: "nat \<Rightarrow> bool" where
  "py_isspace c \<longleftrightarrow>
     (9 \<le> c \<and> c \<le> 13) \<or> (28 \<le> c \<and> c \<le> 32) \<or> c = 133 \<or> c = 160 \<or> c = 5760 \<or>
     (8192 \<le> c \<and> c \<le> 8202) \<or> c = 8232 \<or> c = 8233 \<or> c = 8239 \<or> c = 8287 \<or> c = 12288"

text \<open>\<^verbatim>\<open>s.strip()\<close>\<close>

definition strip :: "pystr \<Rightarrow> pystr" where
  "strip s = rev (dropWhile py_isspace (rev (dropWhile py_isspace s)))"

text \<open>\<^verbatim>\<open>s.split('\n')\<close>: one more segment than there are newlines.\<close>

fun split_nl :: "pystr \<Rightarrow> pystr list" where
  "split_nl [] = [[]]"
| "split_nl (c # cs) =
     (if c = 10 then [] # split_nl cs
      else (case split_nl cs of [] \<Rightarrow> [[c]] | l # ls \<Rightarrow> (c # l) # ls))"

text \<open>\<^verbatim>\<open>sep.join(xs)\<close>\<close>

fun join :: "pystr \<Rightarrow> pystr list \<Rightarrow> pystr" where
  "join sep [] = []"
| "join sep [x] = x"
| "join sep (x # y # ys) = x @ sep @ join sep (y # ys)"

datatype error =
    ValueError pystr
  | PDFError pystr
  | LLMError pystr
  | OSError pystr
  | UnicodeEncodeError pystr

text \<open>\<^verbatim>\<open>str(e)\<close>\<close>

fun str_of :: "error \<Rightarrow> pystr" where
  "str_of (ValueError m) = m"
| "str_of (PDFError m) = m"
| "str_of (LLMError m) = m"
| "str_of (OSError m) = m"
| "str_of (UnicodeEncodeError m) = m"

text \<open>
  JSON-serialisable Python values. A \<^verbatim>\<open>dict\<close> keeps its keys in insertion order, and
  the order shows in the serialised report, so it is an association list.
\<close>

datatype json =
    JNull
  | JBool bool
  | JInt int
  | JStr pystr
  | JList "json list"
  | JObj "(pystr \<times> json) list"

type_synonym pydict = "(pystr \<times> json) list"

text \<open>\<^verbatim>\<open>d.get(k)\<close>: \<open>None\<close> when the key is absent.\<close>

fun dict_get :: "pydict \<Rightarrow> pystr \<Rightarrow> json option" where
  "dict_get [] k = None"
| "dict_get ((k', v) # d) k = (if k' = k then Some v else dict_get d k)"

text \<open>\<^verbatim>\<open>d[k] = v\<close>: an existing key keeps its position, a new key goes last.\<close>

fun dict_set :: "pydict \<Rightarrow> pystr \<Rightarrow> json \<Rightarrow> pydict" where
  "dict_set [] k v = [(k, v)]"
| "dict_set ((k', v') # d) k v = (if k' = k then (k, v) # d else (k', v') # dict_set d k v)"

definition keys :: "pydict \<Rightarrow> pystr list" where
  "keys d = map fst d"

section \<open>pdf\_extractor.py\<close>

text \<open>
  What \<^verbatim>\<open>pdfplumber.open\<close> gives access to: for each page the result of
  \<^verbatim>\<open>page.extract_text(x_tolerance=3, y_tolerance=3)\<close> (a string, possibly empty, or
  \<^verbatim>\<open>None\<close>), and the metadata dictionary (possibly \<^verbatim>\<open>None\<close>).
\<close>

record pdf =
  pages :: "pystr option list"
  metadata :: "pydict option"

text \<open>
  \<^verbatim>\<open>clean_text\<close>: the loop over the lines appends the stripped line to
  \<^verbatim>\<open>cleaned_lines\<close> when it is not empty.
\<close>

fun clean_loop :: "pystr list \<Rightarrow> pystr list \<Rightarrow> pystr list" where
  "clean_loop [] cleaned_lines = cleaned_lines"
| "clean_loop (line # lines) cleaned_lines =
     (let line' = strip line
      in clean_loop lines (if line' \<noteq> [] then cleaned_lines @ [line'] else cleaned_lines))"

definition clean_text :: "pystr \<Rightarrow> pystr" where
  "clean_text text = (let lines = split_nl text; cleaned_lines = clean_loop lines []
                      in join [10] cleaned_lines)"

text \<open>
  The loop of \<^verbatim>\<open>extract_text_from_pdf\<close> over the pages: \<^verbatim>\<open>if page_text:\<close> holds for a
  non-empty string only.
\<close>

fun page_loop :: "pystr option list \<Rightarrow> pystr list \<Rightarrow> pystr list" where
  "page_loop [] text_content = text_content"
| "page_loop (page_text # rest) text_content =
     page_loop rest
       (case page_text of
          None \<Rightarrow> text_content
        | Some t \<Rightarrow> if t \<noteq> [] then text_content @ [t] else text_content)"

text \<open>
  The argument is the outcome of \<^verbatim>\<open>pdfplumber.open(pdf_path)\<close>: the exception it raised,
  or the document.
\<close>

definition extract_text_from_pdf :: "error + pdf \<Rightarrow> error + pystr" where
  "extract_text_from_pdf opened =
     (case opened of
        Inl e \<Rightarrow> Inl e
      | Inr doc \<Rightarrow>
          (let text_content = page_loop (pages doc) [];
               full_text = join [10, 10] text_content
           in Inr (clean_text full_text)))"

text \<open>The lines of a text: the empty text has none, otherwise the segments between newlines.\<close>

definition text_lines :: "pystr \<Rightarrow> pystr list" where
  "text_lines t = (if t = [] then [] else split_nl t)"

text \<open>A page yields text when its extracted text is a non-empty string.\<close>

fun yields_text :: "pystr option \<Rightarrow> bool" where
  "yields_text None = False"
| "yields_text (Some t) = (t \<noteq> [])"

text \<open>
  The normalisation as the specification words it: split into lines, trim each line, drop
  the empty lines, rejoin with single newlines.
\<close>

definition normalize_spec :: "pystr \<Rightarrow> pystr" where
  "normalize_spec text = join [10] (filter (\<lambda>l. l \<noteq> []) (map strip (split_nl text)))"

section \<open>json\_compiler.py\<close>

text \<open>\<^verbatim>\<open>repr\<close> of an \<^verbatim>\<open>int\<close>, as \<^verbatim>\<open>json.dump\<close> writes it.\<close>

function nat_repr :: "nat \<Rightarrow> pystr" where
  "nat_repr n = (if n < 10 then [48 + n] else nat_repr (n div 10) @ [48 + n mod 10])"
  by pat_completeness auto
termination
  by (relation "measure id") auto

declare nat_repr.simps [simp del]

definition int_repr :: "int \<Rightarrow> pystr" where
  "int_repr i = (if i < 0 then 45 # nat_repr (nat (- i)) else nat_repr (nat i))"

text \<open>
  \<^verbatim>\<open>json.dump(obj, f, indent=2, ensure_ascii=False)\<close>. A string is quoted, with the
  backslash, the double quote and the control characters below U+0020 escaped, and every
  other character left as it is. A non-empty list or dictionary puts each item on a line
  of its own, indented by two spaces per nesting level, items separated by a comma and a
  key from its value by a colon and a space.
\<close>

definition hexdigit :: "nat \<Rightarrow> nat" where
  "hexdigit d = (if d < 10 then 48 + d else 87 + d)"

definition escape_char :: "nat \<Rightarrow> pystr" where
  "escape_char c =
     (if c = 92 then [92, 92]
      else if c = 34 then [92, 34]
      else if c = 8 then [92, 98]
      else if c = 12 then [92, 102]
      else if c = 10 then [92, 110]
      else if c = 13 then [92, 114]
      else if c = 9 then [92, 116]
      else if c < 32 then [92, 117, 48, 48, hexdigit (c div 16), hexdigit (c mod 16)]
      else [c])"

definition encode_basestring :: "pystr \<Rightarrow> pystr" where
  "encode_basestring s = [34] @ concat (map escape_char s) @ [34]"

definition newline_indent :: "nat \<Rightarrow> pystr" where
  "newline_indent level = 10 # replicate (2 * level) 32"

fun dumps :: "nat \<Rightarrow> json \<Rightarrow> pystr"
  and dumps_items :: "nat \<Rightarrow> json list \<Rightarrow> pystr list"
  and dumps_pairs :: "nat \<Rightarrow> (pystr \<times> json) list \<Rightarrow> pystr list" where
  "dumps level JNull = lit ''null''"
| "dumps level (JBool b) = (if b then lit ''true'' else lit ''false'')"
| "dumps level (JInt i) = int_repr i"
| "dumps level (JStr s) = encode_basestring s"
| "dumps level (JList lst) =
     (if lst = [] then lit ''[]''
      else [91] @ newline_indent (level + 1)
           @ join ([44] @ newline_indent (level + 1)) (dumps_items (level + 1) lst)
           @ newline_indent level @ [93])"
| "dumps level (JObj dct) =
     (if dct = [] then lit ''{}''
      else [123] @ newline_indent (level + 1)
           @ join ([44] @ newline_indent (level + 1)) (dumps_pairs (level + 1) dct)
           @ newline_indent level @ [125])"
| "dumps_items level [] = []"
| "dumps_items level (x # xs) = dumps level x # dumps_items level xs"
| "dumps_pairs level [] = []"
| "dumps_pairs level ((k, v) # dct) =
     (encode_basestring k @ [58, 32] @ dumps level v) # dumps_pairs level dct"

text \<open>
  The UTF-8 encoding of a text file opened with \<^verbatim>\<open>encoding='utf-8'\<close>. A surrogate code
  point cannot be encoded (Python raises \<^verbatim>\<open>UnicodeEncodeError\<close>). Bytes are numbers
  below 256.
\<close>

definition utf8_char :: "nat \<Rightarrow> nat list option" where
  "utf8_char c =
     (if c < 128 then Some [c]
      else if c < 2048 then Some [192 + c div 64, 128 + c mod 64]
      else if c < 65536 then
        (if 55296 \<le> c \<and> c \<le> 57343 then None
         else Some [224 + c div 4096, 128 + (c div 64) mod 64, 128 + c mod 64])
      else if c < 1114112 then
        Some [240 + c div 262144, 128 + (c div 4096) mod 64, 128 + (c div 64) mod 64,
              128 + c mod 64]
      else None)"

fun utf8_encode :: "pystr \<Rightarrow> nat list option" where
  "utf8_encode [] = Some []"
| "utf8_encode (c # cs) =
     (case utf8_char c of
        None \<Rightarrow> None
      | Some b \<Rightarrow> (case utf8_encode cs of None \<Rightarrow> None | Some bs \<Rightarrow> Some (b @ bs)))"

text \<open>
  Writing a file stands for creating the parent directory, opening the path with
  \<^verbatim>\<open>open(path, 'w', encoding='utf-8')\<close> and writing the text. The file system
  either accepts the write, or refuses to create the directory or to open the file (then
  there is no new file), or fails while the text is written (then the file is there, with
  incomplete contents). A text that cannot be encoded fails in the same way, after the
  file has been opened.
\<close>

datatype fs_answer = Accepts | RefusesOpen error | FailsWriting error

datatype written = Complete "nat list" | Partial

text \<open>The files written so far, oldest first, each with its path and what it holds.\<close>

type_synonym files = "(pystr \<times> written) list"

definition write_file :: "(pystr \<Rightarrow> fs_answer) \<Rightarrow> pystr \<Rightarrow> pystr \<Rightarrow> files \<Rightarrow> error option \<times> files" where
  "write_file answers path text fs =
     (case answers path of
        RefusesOpen e \<Rightarrow> (Some e, fs)
      | FailsWriting e \<Rightarrow> (Some e, fs @ [(path, Partial)])
      | Accepts \<Rightarrow>
          (case utf8_encode text of
             None \<Rightarrow> (Some (UnicodeEncodeError (lit ''surrogates not allowed'')),
                      fs @ [(path, Partial)])
           | Some b \<Rightarrow> (None, fs @ [(path, Complete b)])))"

record JSONCompiler =
  report :: pydict

definition JSONCompiler_init :: JSONCompiler where
  "JSONCompiler_init =
     \<lparr>report = [(lit ''metadata'', JObj []),
                (lit ''task1_text_extraction'', JObj []),
                (lit ''task2_summary'', JObj []),
                (lit ''task3_legislative_sections'', JObj []),
                (lit ''task4_rule_checks'', JObj [])]\<rparr>"

text \<open>\<open>now\<close> is the value of \<^verbatim>\<open>datetime.now().isoformat()\<close> at the call.\<close>

definition add_metadata :: "pystr \<Rightarrow> JSONCompiler \<Rightarrow> pydict \<Rightarrow> JSONCompiler" where
  "add_metadata now self pdf_metadata =
     self\<lparr>report := dict_set (report self) (lit ''metadata'')
       (JObj [(lit ''document_name'', JStr (lit ''Universal Credit Act 2025'')),
              (lit ''analysis_date'', JStr now),
              (lit ''pdf_info'', JObj pdf_metadata)])\<rparr>"

definition add_task1_result :: "JSONCompiler \<Rightarrow> pystr \<Rightarrow> pystr \<Rightarrow> JSONCompiler" where
  "add_task1_result self extracted_text pdf_path =
     self\<lparr>report := dict_set (report self) (lit ''task1_text_extraction'')
       (JObj [(lit ''description'', JStr (lit ''Full text extracted from PDF'')),
              (lit ''source_file'', JStr pdf_path),
              (lit ''text_length'', JInt (int (length extracted_text))),
              (lit ''status'', JStr (lit ''completed'')),
              (lit ''note'', JStr (lit ''Full text stored separately for brevity''))])\<rparr>"

definition add_task2_result :: "JSONCompiler \<Rightarrow> pydict \<Rightarrow> JSONCompiler" where
  "add_task2_result self summary =
     self\<lparr>report := dict_set (report self) (lit ''task2_summary'')
       (JObj [(lit ''description'', JStr (lit ''Act summarized in 5-10 bullet points'')),
              (lit ''summary_points'',
                 (case dict_get summary (lit ''summary'') of None \<Rightarrow> JList [] | Some v \<Rightarrow> v)),
              (lit ''status'', JStr (lit ''completed''))])\<rparr>"

definition add_task3_result :: "JSONCompiler \<Rightarrow> pydict \<Rightarrow> JSONCompiler" where
  "add_task3_result self sections =
     self\<lparr>report := dict_set (report self) (lit ''task3_legislative_sections'')
       (JObj [(lit ''description'', JStr (lit ''Key legislative sections extracted'')),
              (lit ''sections'', JObj sections),
              (lit ''status'', JStr (lit ''completed''))])\<rparr>"

text \<open>\<^verbatim>\<open>r.get("status") == s\<close>\<close>

definition status_is :: "pystr \<Rightarrow> pydict \<Rightarrow> bool" where
  "status_is s r \<longleftrightarrow> dict_get r (lit ''status'') = Some (JStr s)"

definition add_task4_result :: "JSONCompiler \<Rightarrow> pydict list \<Rightarrow> JSONCompiler" where
  "add_task4_result self rule_checks =
     self\<lparr>report := dict_set (report self) (lit ''task4_rule_checks'')
       (JObj [(lit ''description'', JStr (lit ''Six rule compliance checks applied'')),
              (lit ''total_rules'', JInt (int (length rule_checks))),
              (lit ''passed'', JInt (sum_list [1. r \<leftarrow> rule_checks, status_is (lit ''pass'') r])),
              (lit ''failed'', JInt (sum_list [1. r \<leftarrow> rule_checks, status_is (lit ''fail'') r])),
              (lit ''checks'', JList (map JObj rule_checks)),
              (lit ''status'', JStr (lit ''completed''))])\<rparr>"

definition generate_report :: "JSONCompiler \<Rightarrow> pydict" where
  "generate_report self = report self"

text \<open>The exception raised, if any, and the files after the call.\<close>

definition save_to_file :: "(pystr \<Rightarrow> fs_answer) \<Rightarrow> JSONCompiler \<Rightarrow> pystr \<Rightarrow> files \<Rightarrow> error option \<times> files" where
  "save_to_file answers self output_path fs =
     write_file answers output_path (dumps 0 (JObj (report self))) fs"

definition save_extracted_text :: "(pystr \<Rightarrow> fs_answer) \<Rightarrow> pystr \<Rightarrow> pystr \<Rightarrow> files \<Rightarrow> error option \<times> files" where
  "save_extracted_text answers text output_dir fs =
     (let text_file = output_dir @ lit ''/extracted_text.txt''
      in write_file answers text_file text fs)"

text \<open>
  The accumulators a run can hold: the fresh one, and whatever a call of
  \<open>add_metadata\<close> or of an \<open>add_task\<close> method makes of one.
\<close>

inductive reachable :: "JSONCompiler \<Rightarrow> bool" where
  init: "reachable JSONCompiler_init"
| metadata: "reachable c \<Longrightarrow> reachable (add_metadata now c pdf_metadata)"
| task1: "reachable c \<Longrightarrow> reachable (add_task1_result c extracted_text pdf_path)"
| task2: "reachable c \<Longrightarrow> reachable (add_task2_result c summary)"
| task3: "reachable c \<Longrightarrow> reachable (add_task3_result c sections)"
| task4: "reachable c \<Longrightarrow> reachable (add_task4_result c rule_checks)"

text \<open>The field \<open>k\<close> of the section \<open>name\<close> of a report.\<close>

definition section_field :: "pydict \<Rightarrow> pystr \<Rightarrow> pystr \<Rightarrow> json option" where
  "section_field rep name k =
     (case dict_get rep name of Some (JObj sec) \<Rightarrow> dict_get sec k | _ \<Rightarrow> None)"

section \<open>gemini\_analyzer.py\<close>

text \<open>The pydantic schemas: each field in the order of its declaration.\<close>

datatype ActSummary = ActSummary pystr pystr pystr pystr pystr

datatype LegislativeSections = LegislativeSections pystr pystr pystr pystr pystr pystr pystr

datatype RuleCheck = RuleCheck pystr pystr pystr int

text \<open>\<^verbatim>\<open>model_dump()\<close>\<close>

fun LegislativeSections_dump :: "LegislativeSections \<Rightarrow> pydict" where
  "LegislativeSections_dump
     (LegislativeSections definitions obligations responsibilities eligibility payments
        penalties record_keeping) =
     [(lit ''definitions'', JStr definitions),
      (lit ''obligations'', JStr obligations),
      (lit ''responsibilities'', JStr responsibilities),
      (lit ''eligibility'', JStr eligibility),
      (lit ''payments'', JStr payments),
      (lit ''penalties'', JStr penalties),
      (lit ''record_keeping'', JStr record_keeping)]"

fun RuleCheck_dump :: "RuleCheck \<Rightarrow> pydict" where
  "RuleCheck_dump (RuleCheck rule status evidence confidence) =
     [(lit ''rule'', JStr rule),
      (lit ''status'', JStr status),
      (lit ''evidence'', JStr evidence),
      (lit ''confidence'', JInt confidence)]"

text \<open>
  The language model service, as the analyzer sees it. Every call either raises or
  returns: \<open>invoke\<close> is \<^verbatim>\<open>self.llm.invoke(prompt).content\<close>, and the three others are
  \<^verbatim>\<open>self.llm.with_structured_output(Schema).invoke(prompt)\<close>, which raises when the reply
  cannot be coerced into the schema. The rule checks call the service once per rule; the
  number is the count of calls that \<open>apply_rule_checks\<close> has made before, so that
  the outcome of one call is independent of the outcome of another.
\<close>

record llm =
  invoke :: "pystr \<Rightarrow> error + pystr"
  invoke_ActSummary :: "pystr \<Rightarrow> error + ActSummary"
  invoke_LegislativeSections :: "pystr \<Rightarrow> error + LegislativeSections"
  invoke_RuleCheck :: "nat \<Rightarrow> pystr \<Rightarrow> error + RuleCheck"

record GeminiAnalyzer =
  api_key :: pystr
  llm :: llm

text \<open>
  \<^verbatim>\<open>GeminiAnalyzer(api_key)\<close>: \<open>env\<close> is the value of
  \<^verbatim>\<open>os.getenv("GEMINI_API_KEY")\<close> and \<open>service\<close> the client that
  \<^verbatim>\<open>ChatGoogleGenerativeAI\<close> builds. An empty key counts as missing.
\<close>

definition GeminiAnalyzer_init :: "pystr option \<Rightarrow> pystr option \<Rightarrow> llm \<Rightarrow> error + GeminiAnalyzer" where
  "GeminiAnalyzer_init api_key_arg env service =
     (let key = (case api_key_arg of
                   Some k \<Rightarrow> if k \<noteq> [] then Some k else env
                 | None \<Rightarrow> env)
      in case key of
           None \<Rightarrow> Inl (ValueError (lit ''GEMINI_API_KEY not found in environment''))
         | Some k \<Rightarrow>
             if k = [] then Inl (ValueError (lit ''GEMINI_API_KEY not found in environment''))
             else Inr \<lparr>api_key = k, llm = service\<rparr>)"

text \<open>The lines of a prompt template, each ended by a newline.\<close>

definition template :: "string list \<Rightarrow> pystr" where
  "template ls = concat (map (\<lambda>l. lit l @ [10]) ls)"

definition summarize_prompt :: "pystr \<Rightarrow> pystr" where
  "summarize_prompt text =
     template
       ['''',
        ''Analyze the following Universal Credit Act 2025 and provide a summary in exactly 5 bullet points covering:'',
        '''',
        ''1. Purpose - What is the main purpose of this Act?'',
        ''2. Key Definitions - What are the most important terms defined?'',
        ''3. Eligibility - Who is eligible under this Act?'',
        ''4. Obligations - What are the key obligations?'',
        ''5. Enforcement - What enforcement mechanisms exist?'',
        '''',
        ''Be concise and specific. Extract actual section references where possible.'',
        '''',
        ''TEXT:'']
     @ take 20000 text @ [10]"

fun format_summary :: "ActSummary \<Rightarrow> pydict" where
  "format_summary (ActSummary purpose key_definitions eligibility obligations enforcement) =
     [(lit ''summary'',
       JList [JStr (lit ''Purpose: '' @ purpose),
              JStr (lit ''Key Definitions: '' @ key_definitions),
              JStr (lit ''Eligibility: '' @ eligibility),
              JStr (lit ''Obligations: '' @ obligations),
              JStr (lit ''Enforcement: '' @ enforcement)])]"

definition summarize_act :: "GeminiAnalyzer \<Rightarrow> pystr \<Rightarrow> error + pydict" where
  "summarize_act self text =
     (let prompt = summarize_prompt text
      in case invoke_ActSummary (llm self) prompt of
           Inr summary \<Rightarrow> Inr (format_summary summary)
         | Inl e \<Rightarrow>
             (case invoke (llm self) prompt of
                Inl e' \<Rightarrow> Inl e'
              | Inr content \<Rightarrow>
                  (let lines = [strip line. line \<leftarrow> split_nl content, strip line \<noteq> []]
                   in Inr [(lit ''summary'', JList (map JStr (take 10 lines)))])))"

definition sections_prompt :: "pystr \<Rightarrow> pystr" where
  \<open>sections_prompt text =
     template
       ['''',
        ''Extract the following sections from the Universal Credit Act 2025. Be specific and include section numbers.'',
        '''',
        ''Return a JSON object with these exact keys:'',
        ''- "definitions": Key terms defined in the Act'',
        ''- "obligations": Obligations stated in the Act'',
        ''- "responsibilities": Responsibilities of the administering authority'',
        ''- "eligibility": Eligibility criteria for claimants'',
        ''- "payments": Payment calculation or entitlement structure'',
        ''- "penalties": Enforcement or penalty mechanisms'',
        ''- "record_keeping": Record-keeping or reporting requirements'',
        '''',
        ''TEXT:'']
     @ take 20000 text @ [10]\<close>

definition extract_legislative_sections :: "GeminiAnalyzer \<Rightarrow> pystr \<Rightarrow> pydict" where
  "extract_legislative_sections self text =
     (let prompt = sections_prompt text
      in case invoke_LegislativeSections (llm self) prompt of
           Inr sections \<Rightarrow> LegislativeSections_dump sections
         | Inl e \<Rightarrow>
             [(lit ''definitions'', JStr (lit ''Error extracting definitions'')),
              (lit ''obligations'', JStr (lit ''Error extracting obligations'')),
              (lit ''responsibilities'', JStr (lit ''Error extracting responsibilities'')),
              (lit ''eligibility'', JStr (lit ''Error extracting eligibility'')),
              (lit ''payments'', JStr (lit ''Error extracting payments'')),
              (lit ''penalties'', JStr (lit ''Error extracting penalties'')),
              (lit ''record_keeping'', JStr (lit ''Error extracting record_keeping''))])"

definition rules :: "pystr list" where
  "rules =
     [lit ''Act must define key terms'',
      lit ''Act must specify eligibility criteria'',
      lit ''Act must specify responsibilities of the administering authority'',
      lit ''Act must include enforcement or penalties'',
      lit ''Act must include payment calculation or entitlement structure'',
      lit ''Act must include record-keeping or reporting requirements'']"

definition rule_prompt :: "pystr \<Rightarrow> pystr \<Rightarrow> pystr" where
  \<open>rule_prompt rule text =
     template
       ['''',
        ''Analyze if the Universal Credit Act 2025 meets this requirement:'']
     @ [34] @ rule @ [34, 10]
     @ template
       ['''',
        ''Determine:'',
        ''1. Status: "pass" or "fail"'',
        ''2. Evidence: Specific section reference or evidence from the Act'',
        ''3. Confidence: Score from 0-100 indicating confidence in this assessment'',
        '''',
        ''Return JSON with keys: rule, status, evidence, confidence'',
        '''',
        ''TEXT:'']
     @ take 20000 text @ [10]\<close>

text \<open>The result appended for one rule, from the outcome of its call.\<close>

definition rule_result :: "pystr \<Rightarrow> error + RuleCheck \<Rightarrow> pydict" where
  "rule_result rule outcome =
     (case outcome of
        Inr checked \<Rightarrow> RuleCheck_dump checked
      | Inl e \<Rightarrow>
          [(lit ''rule'', JStr rule),
           (lit ''status'', JStr (lit ''error'')),
           (lit ''evidence'', JStr (lit ''Analysis failed: '' @ str_of e)),
           (lit ''confidence'', JInt 0)])"

text \<open>The loop over the rules: \<open>results\<close> holds one entry per call made so far.\<close>

fun rule_loop :: "llm \<Rightarrow> pystr \<Rightarrow> pystr list \<Rightarrow> pydict list \<Rightarrow> pydict list" where
  "rule_loop service text [] results = results"
| "rule_loop service text (rule # rest) results =
     (let prompt = rule_prompt rule text;
          outcome = invoke_RuleCheck service (length results) prompt
      in rule_loop service text rest (results @ [rule_result rule outcome]))"

definition apply_rule_checks :: "GeminiAnalyzer \<Rightarrow> pystr \<Rightarrow> pydict list" where
  "apply_rule_checks self text = rule_loop (llm self) text rules []"

text \<open>\<^verbatim>\<open>get_pdf_metadata\<close>, of pdf\_extractor.py.\<close>

definition get_or :: "pydict \<Rightarrow> pystr \<Rightarrow> json \<Rightarrow> json" where
  "get_or d k dflt = (case dict_get d k of None \<Rightarrow> dflt | Some v \<Rightarrow> v)"

definition get_pdf_metadata :: "error + pdf \<Rightarrow> error + pydict" where
  "get_pdf_metadata opened =
     (case opened of
        Inl e \<Rightarrow> Inl e
      | Inr doc \<Rightarrow>
          (let md = (case metadata doc of None \<Rightarrow> [] | Some m \<Rightarrow> m)
           in Inr [(lit ''total_pages'',
                      JInt (if pages doc \<noteq> [] then int (length (pages doc)) else 0)),
                   (lit ''author'', get_or md (lit ''Author'') (JStr (lit ''Unknown''))),
                   (lit ''title'', get_or md (lit ''Title'') (JStr (lit ''Unknown''))),
                   (lit ''creation_date'',
                      get_or md (lit ''CreationDate'') (JStr (lit ''Unknown'')))]))"

section \<open>main.py\<close>

text \<open>
  What a run of \<open>main\<close> meets outside the program: whether the input path exists, what
  opening the document gives (once for the text, once for the metadata), the clock, the
  file system's answer to a write, the environment variable and the language model
  service.
\<close>

record world =
  pdf_exists :: bool
  open_for_text :: "error + pdf"
  open_for_metadata :: "error + pdf"
  clock :: pystr
  file_system :: "pystr \<Rightarrow> fs_answer"
  GEMINI_API_KEY :: "pystr option"
  service :: llm

definition pdf_path :: pystr where
  "pdf_path = lit ''data/ukpga_20250022_en.pdf''"

definition output_dir :: pystr where
  "output_dir = lit ''output''"

definition output_json :: pystr where
  "output_json = output_dir @ lit ''/final_report.json''"

text \<open>
  The body of the \<^verbatim>\<open>try\<close> block of \<open>main\<close>: the exception that leaves it, if any,
  and the files written.
\<close>

definition main_try :: "world \<Rightarrow> JSONCompiler \<Rightarrow> (error + unit) \<times> files" where
  "main_try w compiler =
     (case extract_text_from_pdf (open_for_text w) of
        Inl e \<Rightarrow> (Inl e, [])
      | Inr extracted_text \<Rightarrow>
     (case get_pdf_metadata (open_for_metadata w) of
        Inl e \<Rightarrow> (Inl e, [])
      | Inr pdf_metadata \<Rightarrow>
     (let compiler = add_metadata (clock w) compiler pdf_metadata;
          compiler = add_task1_result compiler extracted_text pdf_path
      in case save_extracted_text (file_system w) extracted_text output_dir [] of
        (Some e, fs) \<Rightarrow> (Inl e, fs)
      | (None, fs) \<Rightarrow>
     (case GeminiAnalyzer_init None (GEMINI_API_KEY w) (service w) of
        Inl e \<Rightarrow> (Inl e, fs)
      | Inr analyzer \<Rightarrow>
     (case summarize_act analyzer extracted_text of
        Inl e \<Rightarrow> (Inl e, fs)
      | Inr summary \<Rightarrow>
     (let compiler = add_task2_result compiler summary;
          sections = extract_legislative_sections analyzer extracted_text;
          compiler = add_task3_result compiler sections;
          rule_checks = apply_rule_checks analyzer extracted_text;
          compiler = add_task4_result compiler rule_checks
      in case save_to_file (file_system w) compiler output_json fs of
        (Some e, fs') \<Rightarrow> (Inl e, fs')
      | (None, fs') \<Rightarrow> (Inr (), fs')))))))"

text \<open>The exit code of the process and the files it wrote.\<close>

definition main :: "world \<Rightarrow> nat \<times> files" where
  "main w =
     (if \<not> pdf_exists w then (1, [])
      else
        (let compiler = JSONCompiler_init
         in case main_try w compiler of
              (Inl e, fs) \<Rightarrow> (1, fs)
            | (Inr u, fs) \<Rightarrow> (0, fs)))"

section \<open>Sample services\<close>

text \<open>
  Services used to evaluate the analyzer on concrete inputs: one that is down, one whose
  rule checks all pass, one whose third rule check times out, one that answers every rule
  check with a capitalised status, and one that is down for structured output only.
\<close>

definition llm_down :: llm where
  "llm_down =
     \<lparr>invoke = (\<lambda>prompt. Inl (LLMError (lit ''service unavailable''))),
      invoke_ActSummary = (\<lambda>prompt. Inl (LLMError (lit ''service unavailable''))),
      invoke_LegislativeSections = (\<lambda>prompt. Inl (LLMError (lit ''service unavailable''))),
      invoke_RuleCheck = (\<lambda>n prompt. Inl (LLMError (lit ''service unavailable'')))\<rparr>"

definition llm_all_pass :: llm where
  "llm_all_pass =
     llm_down\<lparr>invoke_RuleCheck :=
       (\<lambda>n prompt. Inr (RuleCheck (lit ''rule'') (lit ''pass'') (lit ''section 1'') 90))\<rparr>"

definition llm_one_timeout :: llm where
  "llm_one_timeout =
     llm_all_pass\<lparr>invoke_RuleCheck :=
       (\<lambda>n prompt. if n = 2 then Inl (LLMError (lit ''timeout''))
                    else invoke_RuleCheck llm_all_pass n prompt)\<rparr>"

definition llm_capitalised :: llm where
  "llm_capitalised =
     llm_down\<lparr>invoke_RuleCheck :=
       (\<lambda>n prompt. Inr (RuleCheck (lit ''rule'') (lit ''Pass'') (lit ''section 1'') 90))\<rparr>"

definition llm_free_text :: llm where
  "llm_free_text =
     llm_down\<lparr>invoke := (\<lambda>prompt. Inr (lit '' first '' @ [10, 10] @ lit ''second''))\<rparr>"

definition analyzer_of :: "llm \<Rightarrow> GeminiAnalyzer" where
  "analyzer_of s = \<lparr>api_key = lit ''key'', llm = s\<rparr>"

text \<open>
  Texts and JSON values made of ASCII characters only: their UTF-8 encoding is the text
  itself.
\<close>

definition ascii :: "pystr \<Rightarrow> bool" where
  "ascii s \<longleftrightarrow> list_all (\<lambda>c. c < 128) s"

fun json_ascii :: "json \<Rightarrow> bool"
  and items_ascii :: "json list \<Rightarrow> bool"
  and pairs_ascii :: "(pystr \<times> json) list \<Rightarrow> bool" where
  "json_ascii JNull = True"
| "json_ascii (JBool b) = True"
| "json_ascii (JInt i) = True"
| "json_ascii (JStr s) = ascii s"
| "json_ascii (JList lst) = items_ascii lst"
| "json_ascii (JObj dct) = pairs_ascii dct"
| "items_ascii [] = True"
| "items_ascii (x # xs) = (json_ascii x \<and> items_ascii xs)"
| "pairs_ascii [] = True"
| "pairs_ascii ((k, v) # dct) = (ascii k \<and> json_ascii v \<and> pairs_ascii dct)"

section \<open>Sample runs\<close>

text \<open>
  Four environments of \<open>main\<close>: the input document is missing; the document is there
  and the service is down; the document is there and the service answers plain requests
  only; and the same with a disk that fills up while the final report is written.
\<close>

definition sample_pdf :: pdf where
  "sample_pdf = \<lparr>pages = [Some (lit ''Section 1. Purpose''), None], metadata = None\<rparr>"

definition world_no_pdf :: world where
  "world_no_pdf =
     \<lparr>pdf_exists = False,
      open_for_text = Inl (PDFError (lit ''No such file'')),
      open_for_metadata = Inl (PDFError (lit ''No such file'')),
      clock = lit ''2025-01-01T00:00:00'',
      file_system = (\<lambda>path. Accepts),
      GEMINI_API_KEY = Some (lit ''key''),
      service = llm_down\<rparr>"

definition world_llm_down :: world where
  "world_llm_down =
     world_no_pdf\<lparr>pdf_exists := True, open_for_text := Inr sample_pdf,
       open_for_metadata := Inr sample_pdf\<rparr>"

definition world_degraded :: world where
  "world_degraded = world_llm_down\<lparr>service := llm_free_text\<rparr>"

definition world_disk_full :: world where
  "world_disk_full =
     world_degraded\<lparr>file_system :=
       (\<lambda>path. if path = output_json then FailsWriting (OSError (lit ''No space left on device''))
               else Accepts)\<rparr>"

text \<open>A text of 20001 characters, the last of which occurs in no prompt template.\<close>

definition long_text :: pystr where
  "long_text = replicate 20000 97 @ [9731]"

text \<open>
  An accumulator with a summary that holds characters outside ASCII, a double quote and a
  newline, the metadata of a document with such a title, and the bytes that
  \<^verbatim>\<open>json.dump(report, f, indent=2, ensure_ascii=False)\<close> writes into a UTF-8 file for this
  accumulator once the metadata have been added with the timestamp \<open>stamp\<close>.
\<close>

definition sample_accumulator :: JSONCompiler where
  "sample_accumulator =
     add_task2_result JSONCompiler_init
       [(lit ''summary'',
         JList [JStr (lit ''Cr'' @ [233] @ lit ''dit '' @ [8364, 128512, 34, 10])])]"

definition sample_metadata :: pydict where
  "sample_metadata = [(lit ''total_pages'', JInt 12), (lit ''title'', JStr (220 # lit ''ber''))]"

definition sample_file :: "pystr \<Rightarrow> nat list" where
  \<open>sample_file stamp =
      lit ''{'' @ [10] @
      lit ''  "metadata": {'' @ [10] @
      lit ''    "document_name": "Universal Credit Act 2025",'' @ [10] @
      lit ''    "analysis_date": "'' @ stamp @ lit ''",'' @ [10] @
      lit ''    "pdf_info": {'' @ [10] @
      lit ''      "total_pages": 12,'' @ [10] @
      lit ''      "title": "'' @ [195, 156] @ lit ''ber"'' @ [10] @
      lit ''    }'' @ [10] @
      lit ''  },'' @ [10] @
      lit ''  "task1_text_extraction": {},'' @ [10] @
      lit ''  "task2_summary": {'' @ [10] @
      lit ''    "description": "Act summarized in 5-10 bullet points",'' @ [10] @
      lit ''    "summary_points": ['' @ [10] @
      lit ''      "Cr'' @ [195, 169] @ lit ''dit '' @ [226, 130, 172, 240, 159, 152, 128, 92] @ lit ''"'' @ [92] @ lit ''n"'' @ [10] @
      lit ''    ],'' @ [10] @
      lit ''    "status": "completed"'' @ [10] @
      lit ''  },'' @ [10] @
      lit ''  "task3_legislative_sections": {},'' @ [10] @
      lit ''  "task4_rule_checks": {}'' @ [10] @
      lit ''}''\<close>

section \<open>Properties of the text extractor\<close>

lemma split_nl_nonempty: "split_nl s \<noteq> []"
  by (induction s) (auto split: list.splits)

lemma split_nl_no_newline: "l \<in> set (split_nl s) \<Longrightarrow> 10 \<notin> set l"
proof (induction s arbitrary: l)
  case Nil
  then show ?case by simp
next
  case (Cons c cs)
  show ?case
  proof (cases "c = 10")
    case True
    with Cons show ?thesis by auto
  next
    case False
    obtain h r where hr: "split_nl cs = h # r"
      using split_nl_nonempty [of cs] by (cases "split_nl cs") auto
    with False Cons.prems have "l = c # h \<or> l \<in> set r" by auto
    then show ?thesis
    proof
      assume "l = c # h"
      moreover have "10 \<notin> set h" using Cons.IH [of h] hr by simp
      ultimately show ?thesis using False by auto
    next
      assume "l \<in> set r"
      then show ?thesis using Cons.IH [of l] hr by simp
    qed
  qed
qed

lemma split_nl_line: "10 \<notin> set l \<Longrightarrow> split_nl l = [l]"
  by (induction l) auto

lemma split_nl_append: "10 \<notin> set l \<Longrightarrow> split_nl (l @ 10 # s) = l # split_nl s"
  by (induction l) auto

lemma join_nl_empty_iff: "(\<forall>l \<in> set ls. l \<noteq> []) \<Longrightarrow> join [10] ls = [] \<longleftrightarrow> ls = []"
  by (induction "[10::nat]" ls rule: join.induct) auto

lemma split_nl_join:
  "ls \<noteq> [] \<Longrightarrow> (\<forall>l \<in> set ls. 10 \<notin> set l) \<Longrightarrow> split_nl (join [10] ls) = ls"
proof (induction "[10::nat]" ls rule: join.induct)
  case 1
  then show ?case by simp
next
  case (2 x)
  then show ?case by (simp add: split_nl_line)
next
  case (3 x y ys)
  then show ?case by (simp add: split_nl_append)
qed

lemma set_strip: "set (strip l) \<subseteq> set l"
proof
  fix x
  assume "x \<in> set (strip l)"
  then have "x \<in> set (dropWhile py_isspace (rev (dropWhile py_isspace l)))"
    unfolding strip_def set_rev .
  then have "x \<in> set (rev (dropWhile py_isspace l))" by (rule set_dropWhileD)
  then have "x \<in> set (dropWhile py_isspace l)" unfolding set_rev .
  then show "x \<in> set l" by (rule set_dropWhileD)
qed

lemma last_dropWhile_nonempty: "dropWhile P xs \<noteq> [] \<Longrightarrow> last (dropWhile P xs) = last xs"
  by (induction xs) (auto split: if_splits)

lemma strip_ends:
  assumes "strip l \<noteq> []"
  shows "\<not> py_isspace (hd (strip l))" and "\<not> py_isspace (last (strip l))"
proof -
  let ?m = "dropWhile py_isspace l"
  let ?d = "dropWhile py_isspace (rev ?m)"
  from assms have d: "?d \<noteq> []" by (simp add: strip_def)
  have m: "?m \<noteq> []"
  proof
    assume e: "?m = []"
    have "?d = []" unfolding e by simp
    with d show False by contradiction
  qed
  have "hd (strip l) = last ?d" using d by (simp add: strip_def hd_rev)
  also have "\<dots> = last (rev ?m)" using d by (rule last_dropWhile_nonempty)
  also have "\<dots> = hd ?m" using m by (simp add: last_rev)
  finally show "\<not> py_isspace (hd (strip l))" using hd_dropWhile [OF m] by simp
  have "last (strip l) = hd ?d" using d by (simp add: strip_def last_rev)
  then show "\<not> py_isspace (last (strip l))" using hd_dropWhile [OF d] by simp
qed

lemma clean_loop_filter:
  "clean_loop lines acc = acc @ filter (\<lambda>l. l \<noteq> []) (map strip lines)"
  by (induction lines arbitrary: acc) (auto simp: Let_def)

lemma clean_text_spec: "clean_text text = normalize_spec text"
  by (simp add: clean_text_def normalize_spec_def clean_loop_filter)

lemma page_loop_filter:
  "page_loop ps acc = acc @ map the (filter yields_text ps)"
proof (induction ps arbitrary: acc)
  case Nil
  then show ?case by simp
next
  case (Cons p ps)
  then show ?case by (cases p) auto
qed

lemma text_lines_normalize:
  assumes "l \<in> set (text_lines (normalize_spec text))"
  shows "l \<noteq> [] \<and> \<not> py_isspace (hd l) \<and> \<not> py_isspace (last l) \<and> 10 \<notin> set l"
proof -
  let ?ls = "filter (\<lambda>l. l \<noteq> []) (map strip (split_nl text))"
  have nonl: "\<forall>l \<in> set ?ls. 10 \<notin> set l"
    using split_nl_no_newline set_strip by fastforce
  from assms have ne: "join [10] ?ls \<noteq> []"
    by (auto simp: text_lines_def normalize_spec_def split: if_splits)
  then have "?ls \<noteq> []" by (cases ?ls) auto
  then have "split_nl (join [10] ?ls) = ?ls" using nonl by (rule split_nl_join)
  with assms ne have "l \<in> set ?ls" by (simp add: text_lines_def normalize_spec_def)
  then obtain l0 where l: "l = strip l0" and "strip l0 \<noteq> []" by auto
  then show ?thesis using strip_ends [of l0] nonl \<open>l \<in> set ?ls\<close> by auto
qed

text \<open>
  C6. Whatever the pages of the document hold, the text returned by
  \<open>extract_text_from_pdf\<close> is the texts of the pages that yield text, joined by a blank
  line, then split into lines, each line stripped, the empty lines dropped and the rest
  rejoined with single newlines; and every line of the returned text is non-empty and
  neither starts nor ends with a whitespace character.
\<close>

theorem extract_text_from_pdf_normalized:
  "\<exists>t. extract_text_from_pdf (Inr doc) = Inr t \<and>
       t = normalize_spec (join [10, 10] (map the (filter yields_text (pages doc)))) \<and>
       (\<forall>l \<in> set (text_lines t). l \<noteq> [] \<and> \<not> py_isspace (hd l) \<and> \<not> py_isspace (last l))"
  using text_lines_normalize
  by (simp add: extract_text_from_pdf_def clean_text_spec page_loop_filter)

theorem extract_text_from_pdf_normalized_witness:
  "extract_text_from_pdf
     (Inr \<lparr>pages = [Some [32, 97, 32], None, Some [], Some [10, 98, 9]], metadata = None\<rparr>)
     = Inr [97, 10, 98] \<and>
   text_lines [97, 10, 98] = [[97], [98]] \<and>
   \<not> py_isspace (hd [97]) \<and> \<not> py_isspace (last [98])"
  using extract_text_from_pdf_normalized
    [of "\<lparr>pages = [Some [32, 97, 32], None, Some [], Some [10, 98, 9]], metadata = None\<rparr>"]
  by (simp add: normalize_spec_def strip_def py_isspace_def text_lines_def)

section \<open>Properties of the report accumulator\<close>

lemma lit_append: "lit (a @ b) = lit a @ lit b"
  by (simp add: lit_def)

lemma dict_set_keys: "k \<in> set (keys d) \<Longrightarrow> keys (dict_set d k v) = keys d"
  by (induction d k v rule: dict_set.induct) (auto simp: keys_def)

lemma dict_get_set: "dict_get (dict_set d k v) k = Some v"
  by (induction d k v rule: dict_set.induct) auto

lemma dict_get_set_other: "k' \<noteq> k \<Longrightarrow> dict_get (dict_set d k v) k' = dict_get d k'"
  by (induction d k v rule: dict_set.induct) auto

lemma keys_invariant_step:
  assumes "keys (report c) =
             [lit ''metadata'', lit ''task1_text_extraction'', lit ''task2_summary'',
              lit ''task3_legislative_sections'', lit ''task4_rule_checks'']"
  shows "keys (report (add_metadata now c m)) = keys (report c)"
    and "keys (report (add_task1_result c t p)) = keys (report c)"
    and "keys (report (add_task2_result c s)) = keys (report c)"
    and "keys (report (add_task3_result c secs)) = keys (report c)"
    and "keys (report (add_task4_result c rs)) = keys (report c)"
  using assms
  by (simp_all add: add_metadata_def add_task1_result_def add_task2_result_def
      add_task3_result_def add_task4_result_def dict_set_keys)

lemma reachable_keys:
  "reachable c \<Longrightarrow>
   keys (report c) =
     [lit ''metadata'', lit ''task1_text_extraction'', lit ''task2_summary'',
      lit ''task3_legislative_sections'', lit ''task4_rule_checks'']"
proof (induction rule: reachable.induct)
  case init
  show ?case by (simp add: JSONCompiler_init_def keys_def)
qed (simp_all add: keys_invariant_step)

lemma add_other_sections:
  "k \<noteq> lit ''metadata'' \<Longrightarrow>
     dict_get (report (add_metadata now c m)) k = dict_get (report c) k"
  "k \<noteq> lit ''task1_text_extraction'' \<Longrightarrow>
     dict_get (report (add_task1_result c t p)) k = dict_get (report c) k"
  "k \<noteq> lit ''task2_summary'' \<Longrightarrow>
     dict_get (report (add_task2_result c s)) k = dict_get (report c) k"
  "k \<noteq> lit ''task3_legislative_sections'' \<Longrightarrow>
     dict_get (report (add_task3_result c secs)) k = dict_get (report c) k"
  "k \<noteq> lit ''task4_rule_checks'' \<Longrightarrow>
     dict_get (report (add_task4_result c rs)) k = dict_get (report c) k"
  by (simp_all add: add_metadata_def add_task1_result_def add_task2_result_def
      add_task3_result_def add_task4_result_def dict_get_set_other)

text \<open>
  C7. Every accumulator that a run can hold (the fresh one, and any one obtained from it
  by calls of \<open>add_metadata\<close> and of the four \<open>add_task\<close> methods, in any order and with
  any contents) has exactly the five top-level sections metadata,
  task1\_text\_extraction, task2\_summary, task3\_legislative\_sections and
  task4\_rule\_checks; and each call leaves every section but its own as it was.
\<close>

theorem report_sections_invariant:
  assumes "reachable c"
  shows "keys (report c) =
           [lit ''metadata'', lit ''task1_text_extraction'', lit ''task2_summary'',
            lit ''task3_legislative_sections'', lit ''task4_rule_checks''] \<and>
         (\<forall>k. k \<noteq> lit ''metadata'' \<longrightarrow>
            dict_get (report (add_metadata now c m)) k = dict_get (report c) k) \<and>
         (\<forall>k. k \<noteq> lit ''task1_text_extraction'' \<longrightarrow>
            dict_get (report (add_task1_result c t p)) k = dict_get (report c) k) \<and>
         (\<forall>k. k \<noteq> lit ''task2_summary'' \<longrightarrow>
            dict_get (report (add_task2_result c s)) k = dict_get (report c) k) \<and>
         (\<forall>k. k \<noteq> lit ''task3_legislative_sections'' \<longrightarrow>
            dict_get (report (add_task3_result c secs)) k = dict_get (report c) k) \<and>
         (\<forall>k. k \<noteq> lit ''task4_rule_checks'' \<longrightarrow>
            dict_get (report (add_task4_result c rs)) k = dict_get (report c) k)"
  using reachable_keys [OF assms] by (simp add: add_other_sections)

theorem report_sections_invariant_witness:
  "reachable (add_task3_result (add_metadata [] JSONCompiler_init [])
       (extract_legislative_sections (analyzer_of llm_down) [])) \<and>
   keys (report (add_task3_result (add_metadata [] JSONCompiler_init [])
       (extract_legislative_sections (analyzer_of llm_down) []))) =
     [lit ''metadata'', lit ''task1_text_extraction'', lit ''task2_summary'',
      lit ''task3_legislative_sections'', lit ''task4_rule_checks''] \<and>
   dict_get (report (add_task4_result
       (add_task3_result (add_metadata [] JSONCompiler_init [])
          (extract_legislative_sections (analyzer_of llm_down) [])) []))
     (lit ''metadata'') =
   dict_get (report (add_task3_result (add_metadata [] JSONCompiler_init [])
       (extract_legislative_sections (analyzer_of llm_down) []))) (lit ''metadata'')"
proof -
  let ?c = "add_task3_result (add_metadata [] JSONCompiler_init [])
       (extract_legislative_sections (analyzer_of llm_down) [])"
  have r: "reachable ?c"
    by (intro reachable.task3 reachable.metadata reachable.init)
  have ne: "lit ''metadata'' \<noteq> lit ''task4_rule_checks''"
    by (simp add: lit_def)
  show ?thesis
    using r ne report_sections_invariant [OF r, of "[]" "[]" "[]" "[]" "[]" "[]" "[]"]
    by blast
qed

lemma task_status_fields:
  "section_field (report (add_task1_result c extracted_text path))
     (lit ''task1_text_extraction'') (lit ''status'') = Some (JStr (lit ''completed''))"
  "section_field (report (add_task2_result c summary))
     (lit ''task2_summary'') (lit ''status'') = Some (JStr (lit ''completed''))"
  "section_field (report (add_task3_result c sections))
     (lit ''task3_legislative_sections'') (lit ''status'') = Some (JStr (lit ''completed''))"
  "section_field (report (add_task4_result c rule_checks))
     (lit ''task4_rule_checks'') (lit ''status'') = Some (JStr (lit ''completed''))"
  by (simp_all add: section_field_def add_task1_result_def add_task2_result_def
      add_task3_result_def add_task4_result_def dict_get_set lit_def)

text \<open>
  C10. Whatever accumulator it is called on and whatever contents it is given, each of
  \<open>add_task1_result\<close>, \<open>add_task2_result\<close>, \<open>add_task3_result\<close> and \<open>add_task4_result\<close>
  sets the status field of its section to the string completed. This holds in particular
  when the contents are what the analyzer returns while the service is down: the seven
  placeholder sections, and six rule checks of status error.
\<close>

theorem add_task_status_completed:
  "section_field (report (add_task1_result c extracted_text path))
     (lit ''task1_text_extraction'') (lit ''status'') = Some (JStr (lit ''completed'')) \<and>
   section_field (report (add_task2_result c summary))
     (lit ''task2_summary'') (lit ''status'') = Some (JStr (lit ''completed'')) \<and>
   section_field (report (add_task3_result c sections))
     (lit ''task3_legislative_sections'') (lit ''status'') = Some (JStr (lit ''completed'')) \<and>
   section_field (report (add_task4_result c rule_checks))
     (lit ''task4_rule_checks'') (lit ''status'') = Some (JStr (lit ''completed'')) \<and>
   section_field
     (report (add_task3_result c (extract_legislative_sections (analyzer_of llm_down) t)))
     (lit ''task3_legislative_sections'') (lit ''status'') = Some (JStr (lit ''completed'')) \<and>
   section_field
     (report (add_task4_result c (apply_rule_checks (analyzer_of llm_down) t)))
     (lit ''task4_rule_checks'') (lit ''status'') = Some (JStr (lit ''completed''))"
  by (simp add: task_status_fields)

section \<open>Properties of the analyzer\<close>

text \<open>
  C5. When the schema-constrained call of \<open>extract_legislative_sections\<close> fails, the result
  has exactly the seven fields definitions, obligations, responsibilities, eligibility,
  payments, penalties and record\_keeping, in this order, and each field holds the string
  made of "Error extracting " and the name of the field.
\<close>

theorem extract_sections_fallback:
  assumes "invoke_LegislativeSections (llm self) (sections_prompt text) = Inl e"
  shows "extract_legislative_sections self text =
           map (\<lambda>field. (lit field, JStr (lit (''Error extracting '' @ field))))
             [''definitions'', ''obligations'', ''responsibilities'', ''eligibility'',
              ''payments'', ''penalties'', ''record_keeping'']"
  using assms by (simp add: extract_legislative_sections_def lit_append)

theorem extract_sections_fallback_witness:
  "invoke_LegislativeSections (llm (analyzer_of llm_down)) (sections_prompt []) =
     Inl (LLMError (lit ''service unavailable'')) \<and>
   extract_legislative_sections (analyzer_of llm_down) [] =
     [(lit ''definitions'', JStr (lit ''Error extracting definitions'')),
      (lit ''obligations'', JStr (lit ''Error extracting obligations'')),
      (lit ''responsibilities'', JStr (lit ''Error extracting responsibilities'')),
      (lit ''eligibility'', JStr (lit ''Error extracting eligibility'')),
      (lit ''payments'', JStr (lit ''Error extracting payments'')),
      (lit ''penalties'', JStr (lit ''Error extracting penalties'')),
      (lit ''record_keeping'', JStr (lit ''Error extracting record_keeping''))]"
proof -
  have call: "invoke_LegislativeSections (llm (analyzer_of llm_down)) (sections_prompt []) =
      Inl (LLMError (lit ''service unavailable''))"
    by (simp add: analyzer_of_def llm_down_def)
  show ?thesis
    using call extract_sections_fallback [OF call] by (simp add: lit_append)
qed

lemma rule_prompt_take: "rule_prompt rule (take 20000 text) = rule_prompt rule text"
  by (simp add: rule_prompt_def)

lemma rule_loop_take:
  "rule_loop s (take 20000 text) rs acc = rule_loop s text rs acc"
  by (induction rs arbitrary: acc) (simp_all add: rule_prompt_take)

lemma prompt_forms:
  \<open>summarize_prompt text =
     template
       ['''',
        ''Analyze the following Universal Credit Act 2025 and provide a summary in exactly 5 bullet points covering:'',
        '''',
        ''1. Purpose - What is the main purpose of this Act?'',
        ''2. Key Definitions - What are the most important terms defined?'',
        ''3. Eligibility - Who is eligible under this Act?'',
        ''4. Obligations - What are the key obligations?'',
        ''5. Enforcement - What enforcement mechanisms exist?'',
        '''',
        ''Be concise and specific. Extract actual section references where possible.'',
        '''',
        ''TEXT:'']
     @ take 20000 text @ [10]\<close>
  \<open>sections_prompt text =
     template
       ['''',
        ''Extract the following sections from the Universal Credit Act 2025. Be specific and include section numbers.'',
        '''',
        ''Return a JSON object with these exact keys:'',
        ''- "definitions": Key terms defined in the Act'',
        ''- "obligations": Obligations stated in the Act'',
        ''- "responsibilities": Responsibilities of the administering authority'',
        ''- "eligibility": Eligibility criteria for claimants'',
        ''- "payments": Payment calculation or entitlement structure'',
        ''- "penalties": Enforcement or penalty mechanisms'',
        ''- "record_keeping": Record-keeping or reporting requirements'',
        '''',
        ''TEXT:'']
     @ take 20000 text @ [10]\<close>
  \<open>rule_prompt rule text =
     template
       ['''',
        ''Analyze if the Universal Credit Act 2025 meets this requirement:'']
     @ [34] @ rule @ [34, 10]
     @ template
       ['''',
        ''Determine:'',
        ''1. Status: "pass" or "fail"'',
        ''2. Evidence: Specific section reference or evidence from the Act'',
        ''3. Confidence: Score from 0-100 indicating confidence in this assessment'',
        '''',
        ''Return JSON with keys: rule, status, evidence, confidence'',
        '''',
        ''TEXT:'']
     @ take 20000 text @ [10]\<close>
  by (simp_all add: summarize_prompt_def sections_prompt_def rule_prompt_def)

lemma prompt_eq_iff:
  "summarize_prompt text = summarize_prompt text' \<longleftrightarrow> take 20000 text = take 20000 text'"
  "sections_prompt text = sections_prompt text' \<longleftrightarrow> take 20000 text = take 20000 text'"
  "rule_prompt rule text = rule_prompt rule text' \<longleftrightarrow> take 20000 text = take 20000 text'"
  by (simp_all add: summarize_prompt_def sections_prompt_def rule_prompt_def)

lemma take_long_text: "take 20000 long_text = replicate 20000 97" "length long_text = 20001"
  by (simp_all add: long_text_def)

lemma long_text_tail: "9731 \<notin> set (summarize_prompt long_text)"
  by (simp add: summarize_prompt_def take_long_text template_def lit_def)

text \<open>
  C8. The prompt of each of the three operations is its fixed template followed by the
  first 20000 characters of the text and a newline: two texts give the same prompt
  exactly when their first 20000 characters are the same. So the prompt, and with it the
  result of the operation, is the same for a text and for its first 20000 characters,
  and nothing that follows them has any influence.
\<close>

theorem prompts_use_first_20000:
  \<open>summarize_prompt text =
     template
       ['''',
        ''Analyze the following Universal Credit Act 2025 and provide a summary in exactly 5 bullet points covering:'',
        '''',
        ''1. Purpose - What is the main purpose of this Act?'',
        ''2. Key Definitions - What are the most important terms defined?'',
        ''3. Eligibility - Who is eligible under this Act?'',
        ''4. Obligations - What are the key obligations?'',
        ''5. Enforcement - What enforcement mechanisms exist?'',
        '''',
        ''Be concise and specific. Extract actual section references where possible.'',
        '''',
        ''TEXT:'']
     @ take 20000 text @ [10] \<and>
   sections_prompt text =
     template
       ['''',
        ''Extract the following sections from the Universal Credit Act 2025. Be specific and include section numbers.'',
        '''',
        ''Return a JSON object with these exact keys:'',
        ''- "definitions": Key terms defined in the Act'',
        ''- "obligations": Obligations stated in the Act'',
        ''- "responsibilities": Responsibilities of the administering authority'',
        ''- "eligibility": Eligibility criteria for claimants'',
        ''- "payments": Payment calculation or entitlement structure'',
        ''- "penalties": Enforcement or penalty mechanisms'',
        ''- "record_keeping": Record-keeping or reporting requirements'',
        '''',
        ''TEXT:'']
     @ take 20000 text @ [10] \<and>
   rule_prompt rule text =
     template
       ['''',
        ''Analyze if the Universal Credit Act 2025 meets this requirement:'']
     @ [34] @ rule @ [34, 10]
     @ template
       ['''',
        ''Determine:'',
        ''1. Status: "pass" or "fail"'',
        ''2. Evidence: Specific section reference or evidence from the Act'',
        ''3. Confidence: Score from 0-100 indicating confidence in this assessment'',
        '''',
        ''Return JSON with keys: rule, status, evidence, confidence'',
        '''',
        ''TEXT:'']
     @ take 20000 text @ [10] \<and>
   (summarize_prompt text = summarize_prompt text' \<longleftrightarrow> take 20000 text = take 20000 text') \<and>
   (sections_prompt text = sections_prompt text' \<longleftrightarrow> take 20000 text = take 20000 text') \<and>
   (rule_prompt rule text = rule_prompt rule text' \<longleftrightarrow> take 20000 text = take 20000 text') \<and>
   summarize_prompt text = summarize_prompt (take 20000 text) \<and>
   sections_prompt text = sections_prompt (take 20000 text) \<and>
   rule_prompt rule text = rule_prompt rule (take 20000 text) \<and>
   summarize_act self text = summarize_act self (take 20000 text) \<and>
   extract_legislative_sections self text = extract_legislative_sections self (take 20000 text) \<and>
   apply_rule_checks self text = apply_rule_checks self (take 20000 text)\<close>
proof -
  have 1: "summarize_prompt text = summarize_prompt (take 20000 text)"
    by (simp add: summarize_prompt_def)
  have 2: "sections_prompt text = sections_prompt (take 20000 text)"
    by (simp add: sections_prompt_def)
  have 3: "rule_prompt rule text = rule_prompt rule (take 20000 text)"
    by (simp add: rule_prompt_take)
  have 4: "summarize_act self text = summarize_act self (take 20000 text)"
    unfolding summarize_act_def using 1 by simp
  have 5: "extract_legislative_sections self text =
             extract_legislative_sections self (take 20000 text)"
    unfolding extract_legislative_sections_def using 2 by simp
  have 6: "apply_rule_checks self text = apply_rule_checks self (take 20000 text)"
    by (simp add: apply_rule_checks_def rule_loop_take)
  show ?thesis
    by (intro conjI) (rule prompt_forms prompt_eq_iff 1 2 3 4 5 6)+
qed

theorem prompts_use_first_20000_witness:
  \<open>length long_text = 20001 \<and>
   summarize_prompt long_text =
     template
       ['''',
        ''Analyze the following Universal Credit Act 2025 and provide a summary in exactly 5 bullet points covering:'',
        '''',
        ''1. Purpose - What is the main purpose of this Act?'',
        ''2. Key Definitions - What are the most important terms defined?'',
        ''3. Eligibility - Who is eligible under this Act?'',
        ''4. Obligations - What are the key obligations?'',
        ''5. Enforcement - What enforcement mechanisms exist?'',
        '''',
        ''Be concise and specific. Extract actual section references where possible.'',
        '''',
        ''TEXT:'']
     @ replicate 20000 97 @ [10] \<and>
   9731 \<notin> set (summarize_prompt long_text) \<and>
   summarize_prompt long_text = summarize_prompt (replicate 20000 97) \<and>
   sections_prompt long_text = sections_prompt (replicate 20000 97) \<and>
   rule_prompt (rules ! 0) long_text = rule_prompt (rules ! 0) (replicate 20000 97) \<and>
   apply_rule_checks (analyzer_of llm_all_pass) long_text =
     apply_rule_checks (analyzer_of llm_all_pass) (replicate 20000 97) \<and>
   summarize_prompt (replicate 19999 97 @ [9731]) \<noteq> summarize_prompt (replicate 19999 97 @ [97])\<close>
proof -
  note th = prompts_use_first_20000
    [of long_text "rules ! 0" "replicate 19999 97 @ [9731]" "analyzer_of llm_all_pass"]
  note th' = prompts_use_first_20000
    [of "replicate 19999 97 @ [9731]" "rules ! 0" "replicate 19999 97 @ [97]"
      "analyzer_of llm_all_pass"]
  have d: "take 20000 (replicate 19999 97 @ [9731::nat]) \<noteq> take 20000 (replicate 19999 97 @ [97])"
    by simp
  from th' d
  have ne: "summarize_prompt (replicate 19999 97 @ [9731]) \<noteq>
      summarize_prompt (replicate 19999 97 @ [97])"
    by blast
  from th have
    "summarize_prompt long_text =
     template
       ['''',
        ''Analyze the following Universal Credit Act 2025 and provide a summary in exactly 5 bullet points covering:'',
        '''',
        ''1. Purpose - What is the main purpose of this Act?'',
        ''2. Key Definitions - What are the most important terms defined?'',
        ''3. Eligibility - Who is eligible under this Act?'',
        ''4. Obligations - What are the key obligations?'',
        ''5. Enforcement - What enforcement mechanisms exist?'',
        '''',
        ''Be concise and specific. Extract actual section references where possible.'',
        '''',
        ''TEXT:'']
     @ take 20000 long_text @ [10]"
    "summarize_prompt long_text = summarize_prompt (take 20000 long_text)"
    "sections_prompt long_text = sections_prompt (take 20000 long_text)"
    "rule_prompt (rules ! 0) long_text = rule_prompt (rules ! 0) (take 20000 long_text)"
    "apply_rule_checks (analyzer_of llm_all_pass) long_text =
       apply_rule_checks (analyzer_of llm_all_pass) (take 20000 long_text)"
    by blast+
  then show ?thesis
    using ne long_text_tail by (simp add: take_long_text)
qed

lemma rule_loop_enumerate:
  "rule_loop s text rs acc =
     acc @ map (\<lambda>(i, rule). rule_result rule (invoke_RuleCheck s i (rule_prompt rule text)))
             (enumerate (length acc) rs)"
  by (induction rs arbitrary: acc) (simp_all add: Let_def)

lemma apply_rule_checks_enumerate:
  "apply_rule_checks self text =
     map (\<lambda>(i, rule). rule_result rule (invoke_RuleCheck (llm self) i (rule_prompt rule text)))
       (enumerate 0 rules)"
  by (simp add: apply_rule_checks_def rule_loop_enumerate)

lemma length_rules: "length rules = 6"
  by (simp add: rules_def)

lemma apply_rule_checks_length: "length (apply_rule_checks self text) = 6"
  by (simp add: apply_rule_checks_enumerate length_rules)

lemma apply_rule_checks_nth:
  "i < 6 \<Longrightarrow> apply_rule_checks self text ! i =
     rule_result (rules ! i) (invoke_RuleCheck (llm self) i (rule_prompt (rules ! i) text))"
  by (simp add: apply_rule_checks_enumerate length_rules nth_enumerate_eq)

text \<open>
  C3. \<open>apply_rule_checks\<close> returns six results, one per rule and in the order of the
  rules: the result at position \<open>i\<close> is made from the outcome of the call for rule \<open>i\<close>
  alone. When that call returns, the result is the dump of what it returned (its rule,
  status, evidence and confidence). When that call fails, the result is the entry with
  the text of rule \<open>i\<close>, the status error, the evidence "Analysis failed: " followed by the
  message of the failure, and the confidence 0. Two services that differ in the outcome of
  the call for one rule only give the same results for all the other rules. The function
  returns a list in every case: no failure of a call leaves it.
\<close>

theorem apply_rule_checks_isolated:
  "apply_rule_checks self text =
     map (\<lambda>(i, rule). rule_result rule (invoke_RuleCheck (llm self) i (rule_prompt rule text)))
       (enumerate 0 rules) \<and>
   length (apply_rule_checks self text) = 6 \<and>
   (\<forall>i < 6. \<forall>rule status evidence confidence.
      invoke_RuleCheck (llm self) i (rule_prompt (rules ! i) text) =
        Inr (RuleCheck rule status evidence confidence) \<longrightarrow>
      apply_rule_checks self text ! i =
        [(lit ''rule'', JStr rule),
         (lit ''status'', JStr status),
         (lit ''evidence'', JStr evidence),
         (lit ''confidence'', JInt confidence)]) \<and>
   (\<forall>i < 6. \<forall>e.
      invoke_RuleCheck (llm self) i (rule_prompt (rules ! i) text) = Inl e \<longrightarrow>
      apply_rule_checks self text ! i =
        [(lit ''rule'', JStr (rules ! i)),
         (lit ''status'', JStr (lit ''error'')),
         (lit ''evidence'', JStr (lit ''Analysis failed: '' @ str_of e)),
         (lit ''confidence'', JInt 0)]) \<and>
   (\<forall>i < 6. \<forall>other.
      (\<forall>j prompt. j \<noteq> i \<longrightarrow>
         invoke_RuleCheck (llm other) j prompt = invoke_RuleCheck (llm self) j prompt) \<longrightarrow>
      (\<forall>j < 6. j \<noteq> i \<longrightarrow>
         apply_rule_checks other text ! j = apply_rule_checks self text ! j))"
proof -
  have "apply_rule_checks self text ! i =
        [(lit ''rule'', JStr rule),
         (lit ''status'', JStr status),
         (lit ''evidence'', JStr evidence),
         (lit ''confidence'', JInt confidence)]"
    if "i < 6" "invoke_RuleCheck (llm self) i (rule_prompt (rules ! i) text) =
        Inr (RuleCheck rule status evidence confidence)" for i rule status evidence confidence
    using that by (simp add: apply_rule_checks_nth rule_result_def)
  moreover have "apply_rule_checks self text ! i =
        [(lit ''rule'', JStr (rules ! i)),
         (lit ''status'', JStr (lit ''error'')),
         (lit ''evidence'', JStr (lit ''Analysis failed: '' @ str_of e)),
         (lit ''confidence'', JInt 0)]"
    if "i < 6" "invoke_RuleCheck (llm self) i (rule_prompt (rules ! i) text) = Inl e" for i e
    using that by (simp add: apply_rule_checks_nth rule_result_def)
  moreover have "apply_rule_checks other text ! j = apply_rule_checks self text ! j"
    if "\<forall>j prompt. j \<noteq> i \<longrightarrow>
         invoke_RuleCheck (llm other) j prompt = invoke_RuleCheck (llm self) j prompt"
       "j < 6" "j \<noteq> i" for i j other
    using that by (simp add: apply_rule_checks_nth)
  ultimately show ?thesis
    using apply_rule_checks_enumerate [of self "text"] apply_rule_checks_length [of self "text"]
    by blast
qed

theorem apply_rule_checks_isolated_witness:
  "invoke_RuleCheck (llm (analyzer_of llm_one_timeout)) 2
       (rule_prompt (rules ! 2) []) = Inl (LLMError (lit ''timeout'')) \<and>
   invoke_RuleCheck (llm (analyzer_of llm_one_timeout)) 0
       (rule_prompt (rules ! 0) []) =
     Inr (RuleCheck (lit ''rule'') (lit ''pass'') (lit ''section 1'') 90) \<and>
   length (apply_rule_checks (analyzer_of llm_one_timeout) []) = 6 \<and>
   apply_rule_checks (analyzer_of llm_one_timeout) [] ! 0 =
     [(lit ''rule'', JStr (lit ''rule'')),
      (lit ''status'', JStr (lit ''pass'')),
      (lit ''evidence'', JStr (lit ''section 1'')),
      (lit ''confidence'', JInt 90)] \<and>
   apply_rule_checks (analyzer_of llm_one_timeout) [] ! 2 =
     [(lit ''rule'', JStr (lit ''Act must specify responsibilities of the administering authority'')),
      (lit ''status'', JStr (lit ''error'')),
      (lit ''evidence'', JStr (lit ''Analysis failed: timeout'')),
      (lit ''confidence'', JInt 0)] \<and>
   apply_rule_checks (analyzer_of llm_all_pass) [] ! 0 =
     apply_rule_checks (analyzer_of llm_one_timeout) [] ! 0 \<and>
   apply_rule_checks (analyzer_of llm_all_pass) [] ! 5 =
     apply_rule_checks (analyzer_of llm_one_timeout) [] ! 5 \<and>
   apply_rule_checks (analyzer_of llm_down) [] =
     map (\<lambda>rule.
            [(lit ''rule'', JStr rule),
             (lit ''status'', JStr (lit ''error'')),
             (lit ''evidence'', JStr (lit ''Analysis failed: service unavailable'')),
             (lit ''confidence'', JInt 0)])
       [lit ''Act must define key terms'',
        lit ''Act must specify eligibility criteria'',
        lit ''Act must specify responsibilities of the administering authority'',
        lit ''Act must include enforcement or penalties'',
        lit ''Act must include payment calculation or entitlement structure'',
        lit ''Act must include record-keeping or reporting requirements'']"
proof -
  let ?a = "analyzer_of llm_one_timeout"
  have down: "apply_rule_checks (analyzer_of llm_down) [] =
     map (\<lambda>rule.
            [(lit ''rule'', JStr rule),
             (lit ''status'', JStr (lit ''error'')),
             (lit ''evidence'', JStr (lit ''Analysis failed: service unavailable'')),
             (lit ''confidence'', JInt 0)])
       [lit ''Act must define key terms'',
        lit ''Act must specify eligibility criteria'',
        lit ''Act must specify responsibilities of the administering authority'',
        lit ''Act must include enforcement or penalties'',
        lit ''Act must include payment calculation or entitlement structure'',
        lit ''Act must include record-keeping or reporting requirements'']"
    by (simp add: apply_rule_checks_def rules_def rule_result_def analyzer_of_def
        llm_down_def lit_def)
  have call: "invoke_RuleCheck (llm ?a) 2 (rule_prompt (rules ! 2) []) =
      Inl (LLMError (lit ''timeout''))"
    by (simp add: analyzer_of_def llm_one_timeout_def llm_all_pass_def llm_down_def)
  have call0: "invoke_RuleCheck (llm ?a) 0 (rule_prompt (rules ! 0) []) =
      Inr (RuleCheck (lit ''rule'') (lit ''pass'') (lit ''section 1'') 90)"
    by (simp add: analyzer_of_def llm_one_timeout_def llm_all_pass_def llm_down_def)
  have r2: "rules ! 2 = lit ''Act must specify responsibilities of the administering authority''"
    by (simp add: rules_def)
  have agree: "\<forall>j prompt. j \<noteq> 2 \<longrightarrow>
      invoke_RuleCheck (llm (analyzer_of llm_all_pass)) j prompt =
      invoke_RuleCheck (llm ?a) j prompt"
    by (simp add: analyzer_of_def llm_one_timeout_def llm_all_pass_def llm_down_def)
  have lt: "(2::nat) < 6" "(0::nat) < 6" "(5::nat) < 6" "(0::nat) \<noteq> 2" "(5::nat) \<noteq> 2"
    by simp_all
  note th = apply_rule_checks_isolated [of ?a "[]"]
  have len: "length (apply_rule_checks ?a []) = 6"
    using th by blast
  have ok: "apply_rule_checks ?a [] ! 0 =
     [(lit ''rule'', JStr (lit ''rule'')),
      (lit ''status'', JStr (lit ''pass'')),
      (lit ''evidence'', JStr (lit ''section 1'')),
      (lit ''confidence'', JInt 90)]"
    using th call0 lt(2) by blast
  have err: "apply_rule_checks ?a [] ! 2 =
        [(lit ''rule'', JStr (rules ! 2)),
         (lit ''status'', JStr (lit ''error'')),
         (lit ''evidence'', JStr (lit ''Analysis failed: '' @ str_of (LLMError (lit ''timeout'')))),
         (lit ''confidence'', JInt 0)]"
    using th call lt(1) by blast
  have iso: "apply_rule_checks (analyzer_of llm_all_pass) [] ! 0 = apply_rule_checks ?a [] ! 0"
    "apply_rule_checks (analyzer_of llm_all_pass) [] ! 5 = apply_rule_checks ?a [] ! 5"
    using th agree lt by blast+
  have e: "lit ''Analysis failed: '' @ str_of (LLMError (lit ''timeout'')) =
      lit ''Analysis failed: timeout''"
    by (simp add: lit_def)
  from call call0 len ok err iso down show ?thesis
    unfolding r2 e by blast
qed

lemma pass_fail_exclusive: "\<not> (status_is (lit ''pass'') r \<and> status_is (lit ''fail'') r)"
  by (simp add: status_is_def lit_def)

lemma error_not_pass_fail:
  "status_is (lit ''error'') r \<Longrightarrow> \<not> status_is (lit ''pass'') r \<and> \<not> status_is (lit ''fail'') r"
  by (simp add: status_is_def lit_def)

lemma sum_ones: "sum_list [1. r \<leftarrow> rs, P r] = int (length (filter P rs))"
  by (induction rs) simp_all

lemma pass_fail_counts:
  "length (filter (status_is (lit ''pass'')) rs) + length (filter (status_is (lit ''fail'')) rs)
     \<le> length rs \<and>
   (length (filter (status_is (lit ''pass'')) rs) + length (filter (status_is (lit ''fail'')) rs)
     = length rs \<longleftrightarrow>
    (\<forall>r \<in> set rs. status_is (lit ''pass'') r \<or> status_is (lit ''fail'') r))"
proof (induction rs)
  case Nil
  then show ?case by simp
next
  case (Cons r rs)
  then show ?case using pass_fail_exclusive [of r] by auto
qed

lemma task4_fields:
  "section_field (report (add_task4_result c rs)) (lit ''task4_rule_checks'') (lit ''total_rules'')
     = Some (JInt (int (length rs)))"
  "section_field (report (add_task4_result c rs)) (lit ''task4_rule_checks'') (lit ''passed'')
     = Some (JInt (int (length (filter (status_is (lit ''pass'')) rs))))"
  "section_field (report (add_task4_result c rs)) (lit ''task4_rule_checks'') (lit ''failed'')
     = Some (JInt (int (length (filter (status_is (lit ''fail'')) rs))))"
  by (simp_all add: section_field_def add_task4_result_def dict_get_set sum_ones lit_def)

text \<open>
  C2, as the code has it. For the list that \<open>apply_rule_checks\<close> returns, the section built
  by \<open>add_task4_result\<close> has total\_rules equal to 6, and passed and failed are the numbers
  of entries whose status is exactly pass and exactly fail; their sum is at most 6, and it
  is 6 exactly when every entry has the status pass or the status fail. An entry of status
  error makes the sum smaller than 6, and so does an entry with any other status.
\<close>

theorem task4_counts:
  "\<exists>passed failed.
     section_field (report (add_task4_result c (apply_rule_checks self text)))
       (lit ''task4_rule_checks'') (lit ''total_rules'') = Some (JInt 6) \<and>
     section_field (report (add_task4_result c (apply_rule_checks self text)))
       (lit ''task4_rule_checks'') (lit ''passed'') = Some (JInt (int passed)) \<and>
     section_field (report (add_task4_result c (apply_rule_checks self text)))
       (lit ''task4_rule_checks'') (lit ''failed'') = Some (JInt (int failed)) \<and>
     passed = length (filter (status_is (lit ''pass'')) (apply_rule_checks self text)) \<and>
     failed = length (filter (status_is (lit ''fail'')) (apply_rule_checks self text)) \<and>
     passed + failed \<le> 6 \<and>
     (passed + failed = 6 \<longleftrightarrow>
        (\<forall>r \<in> set (apply_rule_checks self text).
           status_is (lit ''pass'') r \<or> status_is (lit ''fail'') r)) \<and>
     ((\<exists>r \<in> set (apply_rule_checks self text). status_is (lit ''error'') r) \<longrightarrow>
        passed + failed < 6)"
proof -
  let ?rs = "apply_rule_checks self text"
  let ?p = "length (filter (status_is (lit ''pass'')) ?rs)"
  let ?f = "length (filter (status_is (lit ''fail'')) ?rs)"
  have len: "length ?rs = 6" by (rule apply_rule_checks_length)
  have le: "?p + ?f \<le> 6" using pass_fail_counts [of ?rs] len by simp
  have iff: "?p + ?f = 6 \<longleftrightarrow>
      (\<forall>r \<in> set ?rs. status_is (lit ''pass'') r \<or> status_is (lit ''fail'') r)"
    using pass_fail_counts [of ?rs] len by simp
  have err: "(\<exists>r \<in> set ?rs. status_is (lit ''error'') r) \<longrightarrow> ?p + ?f < 6"
    using le iff error_not_pass_fail by (metis le_neq_implies_less)
  show ?thesis
    using task4_fields [of c ?rs] len le iff err by (intro exI [of _ ?p] exI [of _ ?f]) simp
qed

lemma one_timeout_results:
  "apply_rule_checks (analyzer_of llm_one_timeout) [] =
     [RuleCheck_dump (RuleCheck (lit ''rule'') (lit ''pass'') (lit ''section 1'') 90),
      RuleCheck_dump (RuleCheck (lit ''rule'') (lit ''pass'') (lit ''section 1'') 90),
      rule_result (rules ! 2) (Inl (LLMError (lit ''timeout''))),
      RuleCheck_dump (RuleCheck (lit ''rule'') (lit ''pass'') (lit ''section 1'') 90),
      RuleCheck_dump (RuleCheck (lit ''rule'') (lit ''pass'') (lit ''section 1'') 90),
      RuleCheck_dump (RuleCheck (lit ''rule'') (lit ''pass'') (lit ''section 1'') 90)]"
  by (simp add: apply_rule_checks_def rules_def rule_result_def analyzer_of_def
      llm_one_timeout_def llm_all_pass_def llm_down_def)

theorem task4_counts_witness:
  "section_field (report (add_task4_result JSONCompiler_init
       (apply_rule_checks (analyzer_of llm_one_timeout) [])))
     (lit ''task4_rule_checks'') (lit ''total_rules'') = Some (JInt 6) \<and>
   section_field (report (add_task4_result JSONCompiler_init
       (apply_rule_checks (analyzer_of llm_one_timeout) [])))
     (lit ''task4_rule_checks'') (lit ''passed'') = Some (JInt 5) \<and>
   section_field (report (add_task4_result JSONCompiler_init
       (apply_rule_checks (analyzer_of llm_one_timeout) [])))
     (lit ''task4_rule_checks'') (lit ''failed'') = Some (JInt 0) \<and>
   status_is (lit ''error'') (apply_rule_checks (analyzer_of llm_one_timeout) [] ! 2) \<and>
   apply_rule_checks (analyzer_of llm_one_timeout) [] ! 2
     \<in> set (apply_rule_checks (analyzer_of llm_one_timeout) []) \<and>
   (5::nat) + 0 < 6"
proof -
  let ?rs = "apply_rule_checks (analyzer_of llm_one_timeout) []"
  from task4_counts [of JSONCompiler_init "analyzer_of llm_one_timeout" "[]"]
  obtain passed failed where
    t: "section_field (report (add_task4_result JSONCompiler_init ?rs))
          (lit ''task4_rule_checks'') (lit ''total_rules'') = Some (JInt 6)" and
    p: "section_field (report (add_task4_result JSONCompiler_init ?rs))
          (lit ''task4_rule_checks'') (lit ''passed'') = Some (JInt (int passed))" and
    f: "section_field (report (add_task4_result JSONCompiler_init ?rs))
          (lit ''task4_rule_checks'') (lit ''failed'') = Some (JInt (int failed))" and
    pv: "passed = length (filter (status_is (lit ''pass'')) ?rs)" and
    fv: "failed = length (filter (status_is (lit ''fail'')) ?rs)" and
    err: "(\<exists>r \<in> set ?rs. status_is (lit ''error'') r) \<longrightarrow> passed + failed < 6"
    by blast
  have p5: "passed = 5" unfolding pv one_timeout_results by (simp add: status_is_def rule_result_def lit_def)
  have f0: "failed = 0" unfolding fv one_timeout_results by (simp add: status_is_def rule_result_def lit_def)
  have e2: "status_is (lit ''error'') (?rs ! 2)"
    unfolding one_timeout_results by (simp add: status_is_def rule_result_def lit_def)
  have m2: "?rs ! 2 \<in> set ?rs"
    unfolding one_timeout_results by simp
  from err e2 m2 have "passed + failed < 6" by blast
  with t p f p5 f0 e2 m2 show ?thesis by simp
qed

theorem task4_counts_counterexample:
  "section_field (report (add_task4_result JSONCompiler_init
       (apply_rule_checks (analyzer_of llm_capitalised) [])))
     (lit ''task4_rule_checks'') (lit ''total_rules'') = Some (JInt 6) \<and>
   section_field (report (add_task4_result JSONCompiler_init
       (apply_rule_checks (analyzer_of llm_capitalised) [])))
     (lit ''task4_rule_checks'') (lit ''passed'') = Some (JInt 0) \<and>
   section_field (report (add_task4_result JSONCompiler_init
       (apply_rule_checks (analyzer_of llm_capitalised) [])))
     (lit ''task4_rule_checks'') (lit ''failed'') = Some (JInt 0) \<and>
   filter (status_is (lit ''error'')) (apply_rule_checks (analyzer_of llm_capitalised) []) = []"
proof -
  define d where
    "d = RuleCheck_dump (RuleCheck (lit ''rule'') (lit ''Pass'') (lit ''section 1'') 90)"
  have rs: "apply_rule_checks (analyzer_of llm_capitalised) [] = [d, d, d, d, d, d]"
    by (simp add: apply_rule_checks_def rules_def rule_result_def analyzer_of_def
        llm_capitalised_def llm_down_def d_def)
  have d: "\<not> status_is (lit ''pass'') d" "\<not> status_is (lit ''fail'') d"
    "\<not> status_is (lit ''error'') d"
    by (simp_all add: d_def status_is_def lit_def)
  show ?thesis
    unfolding rs by (simp add: task4_fields d)
qed

lemma strip_nonempty_ends:
  "strip l \<noteq> [] \<Longrightarrow> \<not> py_isspace (hd (strip l)) \<and> \<not> py_isspace (last (strip l))"
  using strip_ends by blast

text \<open>
  C4, as the code has it. When the schema-constrained call of \<open>summarize_act\<close> fails, the
  same prompt is sent as a plain request. If that request returns a reply, the summary is
  the reply split into lines, each line stripped, the empty ones dropped and at most the
  first 10 kept: summary\_points has at most 10 elements, none of them empty and none with
  leading or trailing whitespace. If the plain request fails as well, its failure leaves
  \<open>summarize_act\<close>.
\<close>

theorem summarize_fallback:
  assumes "invoke_ActSummary (llm self) (summarize_prompt text) = Inl e"
  shows "(\<forall>content. invoke (llm self) (summarize_prompt text) = Inr content \<longrightarrow>
            (\<exists>points.
               summarize_act self text = Inr [(lit ''summary'', JList (map JStr points))] \<and>
               points = take 10 [strip line. line \<leftarrow> split_nl content, strip line \<noteq> []] \<and>
               section_field (report (add_task2_result c [(lit ''summary'', JList (map JStr points))]))
                 (lit ''task2_summary'') (lit ''summary_points'') = Some (JList (map JStr points)) \<and>
               length points \<le> 10 \<and>
               (\<forall>p \<in> set points. p \<noteq> [] \<and> \<not> py_isspace (hd p) \<and> \<not> py_isspace (last p)))) \<and>
         (\<forall>e'. invoke (llm self) (summarize_prompt text) = Inl e' \<longrightarrow>
            summarize_act self text = Inl e')"
proof -
  have field: "section_field (report (add_task2_result c [(lit ''summary'', v)]))
                 (lit ''task2_summary'') (lit ''summary_points'') = Some v" for v
    by (simp add: section_field_def add_task2_result_def dict_get_set lit_def)
  have pts: "p \<noteq> [] \<and> \<not> py_isspace (hd p) \<and> \<not> py_isspace (last p)"
    if "p \<in> set (take 10 [strip line. line \<leftarrow> split_nl content, strip line \<noteq> []])"
    for p content
  proof -
    from that have "p \<in> set [strip line. line \<leftarrow> split_nl content, strip line \<noteq> []]"
      by (rule in_set_takeD)
    then obtain l where "p = strip l" "strip l \<noteq> []" by auto
    then show ?thesis using strip_nonempty_ends by simp
  qed
  have ok: "\<exists>points.
               summarize_act self text = Inr [(lit ''summary'', JList (map JStr points))] \<and>
               points = take 10 [strip line. line \<leftarrow> split_nl content, strip line \<noteq> []] \<and>
               section_field (report (add_task2_result c [(lit ''summary'', JList (map JStr points))]))
                 (lit ''task2_summary'') (lit ''summary_points'') = Some (JList (map JStr points)) \<and>
               length points \<le> 10 \<and>
               (\<forall>p \<in> set points. p \<noteq> [] \<and> \<not> py_isspace (hd p) \<and> \<not> py_isspace (last p))"
    if reply: "invoke (llm self) (summarize_prompt text) = Inr content" for content
  proof -
    let ?points = "take 10 [strip line. line \<leftarrow> split_nl content, strip line \<noteq> []]"
    have "summarize_act self text = Inr [(lit ''summary'', JList (map JStr ?points))]"
      unfolding summarize_act_def Let_def assms reply by simp
    moreover have "length ?points \<le> 10" by simp
    moreover have "\<forall>p \<in> set ?points. p \<noteq> [] \<and> \<not> py_isspace (hd p) \<and> \<not> py_isspace (last p)"
      using pts by blast
    ultimately show ?thesis using field by blast
  qed
  have raise: "summarize_act self text = Inl e'"
    if failure: "invoke (llm self) (summarize_prompt text) = Inl e'" for e'
    unfolding summarize_act_def Let_def assms failure by simp
  from ok raise show ?thesis by blast
qed

theorem summarize_fallback_counterexample:
  "invoke_ActSummary (llm (analyzer_of llm_down)) (summarize_prompt []) =
     Inl (LLMError (lit ''service unavailable'')) \<and>
   summarize_act (analyzer_of llm_down) [] = Inl (LLMError (lit ''service unavailable''))"
  by (simp add: summarize_act_def analyzer_of_def llm_down_def)

theorem summarize_fallback_witness:
  "invoke_ActSummary (llm (analyzer_of llm_free_text)) (summarize_prompt []) =
     Inl (LLMError (lit ''service unavailable'')) \<and>
   invoke (llm (analyzer_of llm_free_text)) (summarize_prompt []) =
     Inr (lit '' first '' @ [10, 10] @ lit ''second'') \<and>
   summarize_act (analyzer_of llm_free_text) [] =
     Inr [(lit ''summary'', JList [JStr (lit ''first''), JStr (lit ''second'')])] \<and>
   length [lit ''first'', lit ''second''] \<le> 10"
proof -
  let ?a = "analyzer_of llm_free_text"
  have s: "invoke_ActSummary (llm ?a) (summarize_prompt []) =
      Inl (LLMError (lit ''service unavailable''))"
    by (simp add: analyzer_of_def llm_free_text_def llm_down_def)
  have r: "invoke (llm ?a) (summarize_prompt []) = Inr (lit '' first '' @ [10, 10] @ lit ''second'')"
    by (simp add: analyzer_of_def llm_free_text_def llm_down_def)
  have pts: "take 10 [strip line. line \<leftarrow> split_nl (lit '' first '' @ [10, 10] @ lit ''second''),
                strip line \<noteq> []] = [lit ''first'', lit ''second'']"
    by (simp add: lit_def strip_def py_isspace_def)
  from summarize_fallback [OF s, of JSONCompiler_init] r
  obtain points where
    "summarize_act ?a [] = Inr [(lit ''summary'', JList (map JStr points))]"
    "points = take 10 [strip line. line \<leftarrow> split_nl (lit '' first '' @ [10, 10] @ lit ''second''),
                strip line \<noteq> []]"
    "length points \<le> 10"
    by blast
  with s r pts show ?thesis by simp
qed

section \<open>Properties of the serialiser and of the orchestrator\<close>

lemma ascii_simps:
  "ascii []" "ascii (c # s) \<longleftrightarrow> c < 128 \<and> ascii s" "ascii (s @ t) \<longleftrightarrow> ascii s \<and> ascii t"
  by (simp_all add: ascii_def)

lemma ascii_nat_repr: "ascii (nat_repr n)"
proof (induction n rule: nat_repr.induct)
  case (1 n)
  show ?case
  proof (cases "n < 10")
    case True
    then show ?thesis by (subst nat_repr.simps) (simp add: ascii_simps)
  next
    case False
    have "n mod 10 < 10" by simp
    then have "48 + n mod 10 < 128" by linarith
    with False 1 show ?thesis by (subst nat_repr.simps) (simp add: ascii_simps)
  qed
qed

lemma ascii_int_repr: "ascii (int_repr i)"
  by (simp add: int_repr_def ascii_simps ascii_nat_repr)

lemma ascii_newline_indent: "ascii (newline_indent n)"
  by (simp add: newline_indent_def ascii_def list_all_iff)

lemma ascii_escape_char: "c < 128 \<Longrightarrow> ascii (escape_char c)"
proof -
  assume c: "c < 128"
  have h: "hexdigit d < 128" if "d < 16" for d
    using that by (simp add: hexdigit_def)
  have "c < 32 \<Longrightarrow> c div 16 < 16" by simp
  moreover have "c mod 16 < 16" by simp
  ultimately show ?thesis using c h by (simp add: escape_char_def ascii_simps)
qed

lemma ascii_concat_escape: "ascii s \<Longrightarrow> ascii (concat (map escape_char s))"
  by (induction s) (simp_all add: ascii_simps ascii_escape_char)

lemma ascii_encode_basestring: "ascii s \<Longrightarrow> ascii (encode_basestring s)"
  by (simp add: encode_basestring_def ascii_simps ascii_concat_escape)

lemma ascii_join: "ascii sep \<Longrightarrow> \<forall>x \<in> set xs. ascii x \<Longrightarrow> ascii (join sep xs)"
  by (induction sep xs rule: join.induct) (simp_all add: ascii_simps)

lemma ascii_dumps:
  "json_ascii j \<Longrightarrow> ascii (dumps level j)"
  "items_ascii lst \<Longrightarrow> \<forall>x \<in> set (dumps_items level lst). ascii x"
  "pairs_ascii dct \<Longrightarrow> \<forall>x \<in> set (dumps_pairs level dct). ascii x"
proof (induction level j and level lst and level dct
    rule: dumps_dumps_items_dumps_pairs.induct)
  case (5 level lst)
  then show ?case
    by (simp add: ascii_simps ascii_newline_indent ascii_join lit_def)
next
  case (6 level dct)
  then show ?case
    by (simp add: ascii_simps ascii_newline_indent ascii_join lit_def)
qed (simp_all add: ascii_simps ascii_int_repr ascii_encode_basestring lit_def)

lemma utf8_ascii: "ascii s \<Longrightarrow> utf8_encode s = Some s"
  by (induction s) (simp_all add: utf8_char_def ascii_simps)


lemma paths_differ: "output_dir @ lit ''/extracted_text.txt'' \<noteq> output_json"
  by (simp add: output_json_def lit_def)

lemma write_file_cases:
  assumes "write_file answers path text fs = (r, fs')"
  shows "(r = None \<and> (\<exists>b. utf8_encode text = Some b \<and> fs' = fs @ [(path, Complete b)])) \<or>
         ((\<exists>e. r = Some e) \<and> (fs' = fs \<or> fs' = fs @ [(path, Partial)]))"
  using assms by (auto simp: write_file_def split: fs_answer.splits option.splits)

lemma save_extracted_text_cases:
  assumes "save_extracted_text answers t output_dir [] = (r, fs)"
  shows "(r = None \<and> (\<exists>b. utf8_encode t = Some b \<and>
            fs = [(output_dir @ lit ''/extracted_text.txt'', Complete b)])) \<or>
         ((\<exists>e. r = Some e) \<and>
            (fs = [] \<or> fs = [(output_dir @ lit ''/extracted_text.txt'', Partial)]))"
  using write_file_cases [of answers "output_dir @ lit ''/extracted_text.txt''" t "[]" r fs] assms
  by (simp add: save_extracted_text_def)

lemma save_to_file_cases:
  assumes "save_to_file answers c path fs = (r, fs')"
  shows "(r = None \<and> (\<exists>b. utf8_encode (dumps 0 (JObj (report c))) = Some b \<and>
            fs' = fs @ [(path, Complete b)])) \<or>
         ((\<exists>e. r = Some e) \<and> (fs' = fs \<or> fs' = fs @ [(path, Partial)]))"
  using write_file_cases [of answers path "dumps 0 (JObj (report c))" fs r fs'] assms
  by (simp add: save_to_file_def del: dumps.simps)

lemma main_try_stage_raises:
  assumes "(\<exists>e. extract_text_from_pdf (open_for_text w) = Inl e) \<or>
           (\<exists>e. get_pdf_metadata (open_for_metadata w) = Inl e) \<or>
           (\<exists>t e fs. extract_text_from_pdf (open_for_text w) = Inr t \<and>
                  save_extracted_text (file_system w) t output_dir [] = (Some e, fs)) \<or>
           (\<exists>e. GeminiAnalyzer_init None (GEMINI_API_KEY w) (service w) = Inl e) \<or>
           (\<exists>t a e. extract_text_from_pdf (open_for_text w) = Inr t \<and>
                  GeminiAnalyzer_init None (GEMINI_API_KEY w) (service w) = Inr a \<and>
                  summarize_act a t = Inl e)"
  shows "\<exists>e fs. main_try w c = (Inl e, fs) \<and> output_json \<notin> fst ` set fs"
proof (cases "extract_text_from_pdf (open_for_text w)")
  case (Inl e)
  then show ?thesis by (simp add: main_try_def)
next
  case t: (Inr t)
  show ?thesis
  proof (cases "get_pdf_metadata (open_for_metadata w)")
    case (Inl e)
    with t show ?thesis by (simp add: main_try_def)
  next
    case md: (Inr md)
    obtain r fs where sv: "save_extracted_text (file_system w) t output_dir [] = (r, fs)"
      by (cases "save_extracted_text (file_system w) t output_dir []") auto
    from save_extracted_text_cases [OF sv] paths_differ
    have nofinal: "output_json \<notin> fst ` set fs" by auto
    show ?thesis
    proof (cases r)
      case (Some e)
      with t md sv nofinal show ?thesis by (simp add: main_try_def Let_def)
    next
      case None
      show ?thesis
      proof (cases "GeminiAnalyzer_init None (GEMINI_API_KEY w) (service w)")
        case (Inl e)
        with t md sv None nofinal show ?thesis by (simp add: main_try_def Let_def)
      next
        case a: (Inr a)
        show ?thesis
        proof (cases "summarize_act a t")
          case (Inl e)
          with t md sv None a nofinal show ?thesis by (simp add: main_try_def Let_def)
        next
          case (Inr s)
          with assms t md sv None a show ?thesis by simp
        qed
      qed
    qed
  qed
qed

lemma main_try_report:
  assumes "main_try w c = (r, fs)" and "output_json \<in> fst ` set fs \<or> (\<exists>u. r = Inr u)"
  shows "\<exists>t md a s b1 x.
           extract_text_from_pdf (open_for_text w) = Inr t \<and>
           get_pdf_metadata (open_for_metadata w) = Inr md \<and>
           GeminiAnalyzer_init None (GEMINI_API_KEY w) (service w) = Inr a \<and>
           summarize_act a t = Inr s \<and>
           utf8_encode t = Some b1 \<and>
           fs = [(output_dir @ lit ''/extracted_text.txt'', Complete b1), (output_json, x)] \<and>
           (((\<exists>u. r = Inr u) \<and>
             (\<exists>b2. utf8_encode (dumps 0 (JObj (report
                (add_task4_result
                  (add_task3_result
                    (add_task2_result
                      (add_task1_result (add_metadata (clock w) c md) t pdf_path) s)
                    (extract_legislative_sections a t))
                  (apply_rule_checks a t))))) = Some b2 \<and> x = Complete b2)) \<or>
            ((\<exists>e. r = Inl e) \<and> x = Partial))"
proof (cases "extract_text_from_pdf (open_for_text w)")
  case (Inl e)
  with assms show ?thesis by (auto simp: main_try_def)
next
  case t: (Inr t)
  show ?thesis
  proof (cases "get_pdf_metadata (open_for_metadata w)")
    case (Inl e)
    with t assms show ?thesis by (auto simp: main_try_def)
  next
    case md: (Inr md)
    obtain r1 fs1 where sv: "save_extracted_text (file_system w) t output_dir [] = (r1, fs1)"
      by (cases "save_extracted_text (file_system w) t output_dir []") auto
    note c1 = save_extracted_text_cases [OF sv]
    from c1 paths_differ have nofinal: "output_json \<notin> fst ` set fs1" by auto
    show ?thesis
    proof (cases r1)
      case (Some e)
      with t md sv nofinal assms show ?thesis by (auto simp: main_try_def Let_def)
    next
      case None
      with c1 obtain b1 where b1: "utf8_encode t = Some b1"
        "fs1 = [(output_dir @ lit ''/extracted_text.txt'', Complete b1)]"
        by auto
      show ?thesis
      proof (cases "GeminiAnalyzer_init None (GEMINI_API_KEY w) (service w)")
        case (Inl e)
        with t md sv None nofinal assms show ?thesis by (auto simp: main_try_def Let_def)
      next
        case a: (Inr a)
        show ?thesis
        proof (cases "summarize_act a t")
          case (Inl e)
          with t md sv None a nofinal assms show ?thesis by (auto simp: main_try_def Let_def)
        next
          case s: (Inr s)
          let ?C = "add_task4_result
                  (add_task3_result
                    (add_task2_result
                      (add_task1_result (add_metadata (clock w) c md) t pdf_path) s)
                    (extract_legislative_sections a t))
                  (apply_rule_checks a t)"
          obtain r2 fs2 where sf: "save_to_file (file_system w) ?C output_json fs1 = (r2, fs2)"
            by (cases "save_to_file (file_system w) ?C output_json fs1") auto
          note c2 = save_to_file_cases [OF sf]
          show ?thesis
          proof (cases r2)
            case None2: None
            with c2 obtain b2 where b2: "utf8_encode (dumps 0 (JObj (report ?C))) = Some b2"
              "fs2 = fs1 @ [(output_json, Complete b2)]"
              by auto
            from assms(1) t md sv None a s sf None2
            have "r = Inr ()" "fs = fs2" by (simp_all add: main_try_def Let_def)
            with t md a s b1 b2 show ?thesis by simp
          next
            case (Some e)
            from assms(1) t md sv None a s sf Some
            have rf: "r = Inl e" "fs = fs2" by (simp_all add: main_try_def Let_def)
            from c2 Some have "fs2 = fs1 \<or> fs2 = fs1 @ [(output_json, Partial)]" by auto
            with rf assms(2) nofinal have "fs2 = fs1 @ [(output_json, Partial)]" by auto
            with rf t md a s b1 show ?thesis by simp
          qed
        qed
      qed
    qed
  qed
qed


text \<open>
  C1. In a run of \<open>main\<close>: when the input path does not exist, the process exits with
  code 1 and nothing is written, whatever the document, the service and the file system
  would have answered. When a stage raises (the text extraction, the metadata extraction,
  the saving of the extracted text, the construction of the analyzer, or the
  summarisation, whose fallback request can fail), the exit code is 1 and no file is
  written under the path of the final report. When there is a file under that path, the
  input exists and every stage has returned: then either the exit code is 0 and the file
  holds the serialisation of the accumulator after the metadata and all four task results
  were added, or the write of the report itself failed, the exit code is 1 and the file
  is incomplete. An exit code 0 always comes with the complete final report.
\<close>

theorem main_fail_fast:
  "(\<not> pdf_exists w \<longrightarrow> main w = (1, [])) \<and>
   ((\<exists>e. extract_text_from_pdf (open_for_text w) = Inl e) \<or>
    (\<exists>e. get_pdf_metadata (open_for_metadata w) = Inl e) \<or>
    (\<exists>t e fs. extract_text_from_pdf (open_for_text w) = Inr t \<and>
           save_extracted_text (file_system w) t output_dir [] = (Some e, fs)) \<or>
    (\<exists>e. GeminiAnalyzer_init None (GEMINI_API_KEY w) (service w) = Inl e) \<or>
    (\<exists>t a e. extract_text_from_pdf (open_for_text w) = Inr t \<and>
           GeminiAnalyzer_init None (GEMINI_API_KEY w) (service w) = Inr a \<and>
           summarize_act a t = Inl e) \<longrightarrow>
    fst (main w) = 1 \<and> output_json \<notin> fst ` set (snd (main w))) \<and>
   (output_json \<in> fst ` set (snd (main w)) \<longrightarrow>
    pdf_exists w \<and>
    (\<exists>t md a s b1 x.
       extract_text_from_pdf (open_for_text w) = Inr t \<and>
       get_pdf_metadata (open_for_metadata w) = Inr md \<and>
       GeminiAnalyzer_init None (GEMINI_API_KEY w) (service w) = Inr a \<and>
       summarize_act a t = Inr s \<and>
       utf8_encode t = Some b1 \<and>
       snd (main w) = [(output_dir @ lit ''/extracted_text.txt'', Complete b1), (output_json, x)] \<and>
       ((fst (main w) = 0 \<and>
         (\<exists>b2. utf8_encode (dumps 0 (JObj (report
            (add_task4_result
              (add_task3_result
                (add_task2_result
                  (add_task1_result (add_metadata (clock w) JSONCompiler_init md) t pdf_path) s)
                (extract_legislative_sections a t))
              (apply_rule_checks a t))))) = Some b2 \<and> x = Complete b2)) \<or>
        (fst (main w) = 1 \<and> x = Partial)))) \<and>
   (fst (main w) = 0 \<longrightarrow> (\<exists>b. snd (main w) ! 1 = (output_json, Complete b)))"
proof (cases "pdf_exists w")
  case False
  then show ?thesis by (simp add: main_def)
next
  case True
  obtain r fs where r: "main_try w JSONCompiler_init = (r, fs)"
    by (cases "main_try w JSONCompiler_init") auto
  have m: "main w = (case r of Inl e \<Rightarrow> 1 | Inr u \<Rightarrow> 0, fs)"
    using True r by (cases r) (simp_all add: main_def)
  have 1: "fst (main w) = 1 \<and> output_json \<notin> fst ` set (snd (main w))"
    if "(\<exists>e. extract_text_from_pdf (open_for_text w) = Inl e) \<or>
       (\<exists>e. get_pdf_metadata (open_for_metadata w) = Inl e) \<or>
       (\<exists>t e fs. extract_text_from_pdf (open_for_text w) = Inr t \<and>
              save_extracted_text (file_system w) t output_dir [] = (Some e, fs)) \<or>
       (\<exists>e. GeminiAnalyzer_init None (GEMINI_API_KEY w) (service w) = Inl e) \<or>
       (\<exists>t a e. extract_text_from_pdf (open_for_text w) = Inr t \<and>
              GeminiAnalyzer_init None (GEMINI_API_KEY w) (service w) = Inr a \<and>
              summarize_act a t = Inl e)"
    using main_try_stage_raises [OF that, of JSONCompiler_init] r m by auto
  have 2: "(\<exists>t md a s b1 x.
       extract_text_from_pdf (open_for_text w) = Inr t \<and>
       get_pdf_metadata (open_for_metadata w) = Inr md \<and>
       GeminiAnalyzer_init None (GEMINI_API_KEY w) (service w) = Inr a \<and>
       summarize_act a t = Inr s \<and>
       utf8_encode t = Some b1 \<and>
       snd (main w) = [(output_dir @ lit ''/extracted_text.txt'', Complete b1), (output_json, x)] \<and>
       ((fst (main w) = 0 \<and>
         (\<exists>b2. utf8_encode (dumps 0 (JObj (report
            (add_task4_result
              (add_task3_result
                (add_task2_result
                  (add_task1_result (add_metadata (clock w) JSONCompiler_init md) t pdf_path) s)
                (extract_legislative_sections a t))
              (apply_rule_checks a t))))) = Some b2 \<and> x = Complete b2)) \<or>
        (fst (main w) = 1 \<and> x = Partial)))"
    if "output_json \<in> fst ` set fs \<or> (\<exists>u. r = Inr u)"
    using main_try_report [OF r that] m by (cases r) auto
  have 3: "\<exists>b. snd (main w) ! 1 = (output_json, Complete b)" if "fst (main w) = 0"
  proof -
    from that m have "\<exists>u. r = Inr u" by (cases r) auto
    then have "output_json \<in> fst ` set fs \<or> (\<exists>u. r = Inr u)" by simp
    from 2 [OF this] that show ?thesis by auto
  qed
  from m have "snd (main w) = fs" by simp
  with True 1 2 3 show ?thesis by simp
qed


lemma sample_text: "extract_text_from_pdf (Inr sample_pdf) = Inr (lit ''Section 1. Purpose'')"
  by (simp add: extract_text_from_pdf_def sample_pdf_def clean_text_def lit_def strip_def
      py_isspace_def)

lemma sample_init:
  "GeminiAnalyzer_init None (Some (lit ''key'')) s = Inr (analyzer_of s)"
  by (simp add: GeminiAnalyzer_init_def analyzer_of_def lit_def)

lemma sample_report_ascii:
  "json_ascii (JObj (report
     (add_task4_result
       (add_task3_result
         (add_task2_result
           (add_task1_result
             (add_metadata (lit ''2025-01-01T00:00:00'') JSONCompiler_init
                [(lit ''total_pages'', JInt 2), (lit ''author'', JStr (lit ''Unknown'')),
                 (lit ''title'', JStr (lit ''Unknown'')),
                 (lit ''creation_date'', JStr (lit ''Unknown''))])
             (lit ''Section 1. Purpose'') pdf_path)
           [(lit ''summary'', JList [JStr (lit ''first''), JStr (lit ''second'')])])
         (extract_legislative_sections (analyzer_of llm_free_text) (lit ''Section 1. Purpose'')))
       (apply_rule_checks (analyzer_of llm_free_text) (lit ''Section 1. Purpose'')))))"
  by (simp add: add_metadata_def add_task1_result_def add_task2_result_def
      add_task3_result_def add_task4_result_def JSONCompiler_init_def
      extract_legislative_sections_def apply_rule_checks_def rules_def rule_result_def
      analyzer_of_def llm_free_text_def llm_down_def pdf_path_def lit_def ascii_def)

lemma sample_stages:
  "extract_text_from_pdf (open_for_text world_degraded) = Inr (lit ''Section 1. Purpose'')"
  "get_pdf_metadata (open_for_metadata world_degraded) =
      Inr [(lit ''total_pages'', JInt 2), (lit ''author'', JStr (lit ''Unknown'')),
           (lit ''title'', JStr (lit ''Unknown'')), (lit ''creation_date'', JStr (lit ''Unknown''))]"
  "GeminiAnalyzer_init None (GEMINI_API_KEY world_degraded) (service world_degraded) =
      Inr (analyzer_of llm_free_text)"
  "summarize_act (analyzer_of llm_free_text) (lit ''Section 1. Purpose'') =
      Inr [(lit ''summary'', JList [JStr (lit ''first''), JStr (lit ''second'')])]"
  "pdf_exists world_degraded"
  "clock world_degraded = lit ''2025-01-01T00:00:00''"
  "utf8_encode (lit ''Section 1. Purpose'') = Some (lit ''Section 1. Purpose'')"
proof -
  show "extract_text_from_pdf (open_for_text world_degraded) = Inr (lit ''Section 1. Purpose'')"
    by (simp add: world_degraded_def world_llm_down_def world_no_pdf_def sample_text)
  show "get_pdf_metadata (open_for_metadata world_degraded) =
      Inr [(lit ''total_pages'', JInt 2), (lit ''author'', JStr (lit ''Unknown'')),
           (lit ''title'', JStr (lit ''Unknown'')), (lit ''creation_date'', JStr (lit ''Unknown''))]"
    by (simp add: world_degraded_def world_llm_down_def world_no_pdf_def get_pdf_metadata_def
        sample_pdf_def get_or_def)
  show "GeminiAnalyzer_init None (GEMINI_API_KEY world_degraded) (service world_degraded) =
      Inr (analyzer_of llm_free_text)"
    by (simp add: world_degraded_def world_llm_down_def world_no_pdf_def sample_init)
  show "summarize_act (analyzer_of llm_free_text) (lit ''Section 1. Purpose'') =
      Inr [(lit ''summary'', JList [JStr (lit ''first''), JStr (lit ''second'')])]"
    by (simp add: summarize_act_def analyzer_of_def llm_free_text_def llm_down_def lit_def
        strip_def py_isspace_def)
  show "pdf_exists world_degraded" "clock world_degraded = lit ''2025-01-01T00:00:00''"
    by (simp_all add: world_degraded_def world_llm_down_def world_no_pdf_def)
  show "utf8_encode (lit ''Section 1. Purpose'') = Some (lit ''Section 1. Purpose'')"
    by (rule utf8_ascii) (simp add: lit_def ascii_def)
qed

lemma main_degraded:
  "fst (main world_degraded) = 0 \<and>
   map fst (snd (main world_degraded)) = [output_dir @ lit ''/extracted_text.txt'', output_json]"
proof -
  have w: "file_system world_degraded = (\<lambda>path. Accepts)"
    by (simp add: world_degraded_def world_llm_down_def world_no_pdf_def)
  note e2 = utf8_ascii [OF ascii_dumps(1) [OF sample_report_ascii]]
  show ?thesis
    by (simp add: main_def main_try_def Let_def sample_stages w save_extracted_text_def
        write_file_def save_to_file_def e2 del: dumps.simps)
qed

lemma main_disk_full:
  "main world_disk_full =
     (1, [(output_dir @ lit ''/extracted_text.txt'', Complete (lit ''Section 1. Purpose'')),
          (output_json, Partial)])"
proof -
  have w: "file_system world_disk_full =
      (\<lambda>path. if path = output_json then FailsWriting (OSError (lit ''No space left on device''))
               else Accepts)"
    "open_for_text world_disk_full = open_for_text world_degraded"
    "open_for_metadata world_disk_full = open_for_metadata world_degraded"
    "GEMINI_API_KEY world_disk_full = GEMINI_API_KEY world_degraded"
    "service world_disk_full = service world_degraded"
    "pdf_exists world_disk_full"
    by (simp_all add: world_disk_full_def world_degraded_def world_llm_down_def world_no_pdf_def)
  show ?thesis
    by (simp add: main_def main_try_def Let_def w sample_stages save_extracted_text_def
        write_file_def save_to_file_def paths_differ del: dumps.simps)
qed


theorem main_fail_fast_witness:
  "\<not> pdf_exists world_no_pdf \<and> main world_no_pdf = (1, []) \<and>
   extract_text_from_pdf (open_for_text world_llm_down) = Inr (lit ''Section 1. Purpose'') \<and>
   GeminiAnalyzer_init None (GEMINI_API_KEY world_llm_down) (service world_llm_down) =
     Inr (analyzer_of llm_down) \<and>
   summarize_act (analyzer_of llm_down) (lit ''Section 1. Purpose'') =
     Inl (LLMError (lit ''service unavailable'')) \<and>
   fst (main world_llm_down) = 1 \<and>
   output_json \<notin> fst ` set (snd (main world_llm_down)) \<and>
   output_json \<in> fst ` set (snd (main world_degraded)) \<and>
   pdf_exists world_degraded \<and> fst (main world_degraded) = 0 \<and>
   fst (snd (main world_degraded) ! 1) = output_json \<and>
   main world_disk_full =
     (1, [(output_dir @ lit ''/extracted_text.txt'', Complete (lit ''Section 1. Purpose'')),
          (output_json, Partial)])"
proof -
  have n: "\<not> pdf_exists world_no_pdf"
    by (simp add: world_no_pdf_def)
  have t: "extract_text_from_pdf (open_for_text world_llm_down) = Inr (lit ''Section 1. Purpose'')"
    by (simp add: world_llm_down_def world_no_pdf_def sample_text)
  have a: "GeminiAnalyzer_init None (GEMINI_API_KEY world_llm_down) (service world_llm_down) =
      Inr (analyzer_of llm_down)"
    by (simp add: world_llm_down_def world_no_pdf_def sample_init)
  have s: "summarize_act (analyzer_of llm_down) (lit ''Section 1. Purpose'') =
      Inl (LLMError (lit ''service unavailable''))"
    by (simp add: summarize_act_def analyzer_of_def llm_down_def)
  have d: "output_json \<in> fst ` set (snd (main world_degraded))"
  proof -
    have "output_json \<in> set (map fst (snd (main world_degraded)))"
      using main_degraded by simp
    then show ?thesis by simp
  qed
  have z: "fst (main world_degraded) = 0"
    using main_degraded by simp
  from main_fail_fast [of world_no_pdf] n
  have 1: "main world_no_pdf = (1, [])" by blast
  from main_fail_fast [of world_llm_down] t a s
  have 2: "fst (main world_llm_down) = 1 \<and> output_json \<notin> fst ` set (snd (main world_llm_down))"
    by blast
  from main_fail_fast [of world_degraded] d
  have 3: "pdf_exists world_degraded"
    by blast
  from main_fail_fast [of world_degraded] z
  have "\<exists>b. snd (main world_degraded) ! 1 = (output_json, Complete b)"
    by blast
  then have 4: "fst (snd (main world_degraded) ! 1) = output_json"
    by auto
  from n t a s d z 1 2 3 4 main_disk_full show ?thesis by blast
qed

lemma replicate_two: "replicate 2 x = [x, x]"
  by (simp add: numeral_2_eq_2)

lemma utf8_encode_append:
  "utf8_encode (a @ b) =
     (case utf8_encode a of
        None \<Rightarrow> None
      | Some x \<Rightarrow> (case utf8_encode b of None \<Rightarrow> None | Some y \<Rightarrow> Some (x @ y)))"
  by (induction a) (auto split: option.splits)

lemma replicate_four: "replicate 4 x = [x, x, x, x]"
  by (simp add: numeral_eq_Suc)

lemma reachable_shape:
  assumes "reachable c"
  shows "\<exists>v rest. report c = (lit ''metadata'', v) # rest \<and> rest \<noteq> []"
proof -
  from reachable_keys [OF assms]
  have k: "map fst (report c) =
     [lit ''metadata'', lit ''task1_text_extraction'', lit ''task2_summary'',
      lit ''task3_legislative_sections'', lit ''task4_rule_checks'']"
    by (simp add: keys_def)
  then obtain p rest where pr: "report c = p # rest" by (cases "report c") auto
  with k have "fst p = lit ''metadata''" "rest \<noteq> []" by auto
  with pr show ?thesis by (cases p) auto
qed

lemma dumps_obj_cons2:
  "dumps level (JObj ((k, v) # p # rest)) =
     [123] @ newline_indent (level + 1) @ encode_basestring k @ [58, 32] @ dumps (level + 1) v
     @ [44] @ newline_indent (level + 1)
     @ join ([44] @ newline_indent (level + 1)) (dumps_pairs (level + 1) (p # rest))
     @ newline_indent level @ [125]"
  by (cases p) simp

lemma dumps_obj_single:
  "dumps level (JObj [(k, v)]) =
     [123] @ newline_indent (level + 1) @ encode_basestring k @ [58, 32] @ dumps (level + 1) v
     @ newline_indent level @ [125]"
  by simp

lemma join_pair: "join sep [a, b] = a @ sep @ b"
  by simp

lemma stamp_prefix:
  \<open>[123] @ newline_indent (0 + 1) @ encode_basestring (lit ''metadata'') @ [58, 32]
     @ [123] @ newline_indent (0 + 1 + 1) @ encode_basestring (lit ''document_name'') @ [58, 32]
     @ encode_basestring (lit ''Universal Credit Act 2025'')
     @ [44] @ newline_indent (0 + 1 + 1) @ encode_basestring (lit ''analysis_date'') @ [58, 32] =
     template
       [''{'',
        ''  "metadata": {'',
        ''    "document_name": "Universal Credit Act 2025",'']
     @ lit ''    "analysis_date": ''\<close>
  by (simp add: newline_indent_def replicate_two replicate_four encode_basestring_def
      escape_char_def template_def lit_def)

lemma dumps_stamp:
  assumes "reachable c"
  shows \<open>\<exists>post. \<forall>now.
     dumps 0 (JObj (report (add_metadata now c pdf_metadata))) =
       template
         [''{'',
          ''  "metadata": {'',
          ''    "document_name": "Universal Credit Act 2025",'']
       @ lit ''    "analysis_date": '' @ encode_basestring now @ post\<close>
proof -
  from reachable_shape [OF assms] obtain v p rest where
    r: "report c = (lit ''metadata'', v) # p # rest"
    by (metis list.exhaust)
  let ?post = "[44] @ newline_indent (0 + 1 + 1) @ encode_basestring (lit ''pdf_info'') @ [58, 32]
         @ dumps (0 + 1 + 1) (JObj pdf_metadata) @ newline_indent (0 + 1) @ [125]
         @ [44] @ newline_indent (0 + 1)
         @ join ([44] @ newline_indent (0 + 1)) (dumps_pairs (0 + 1) (p # rest))
         @ newline_indent 0 @ [125]"
  have \<open>dumps 0 (JObj (report (add_metadata now c pdf_metadata))) =
       template
         [''{'',
          ''  "metadata": {'',
          ''    "document_name": "Universal Credit Act 2025",'']
       @ lit ''    "analysis_date": '' @ encode_basestring now @ ?post\<close> for now
  proof -
    have rep: "report (add_metadata now c pdf_metadata) =
        (lit ''metadata'',
         JObj [(lit ''document_name'', JStr (lit ''Universal Credit Act 2025'')),
               (lit ''analysis_date'', JStr now),
               (lit ''pdf_info'', JObj pdf_metadata)]) # p # rest"
      by (simp add: add_metadata_def r)
    have "dumps 0 (JObj (report (add_metadata now c pdf_metadata))) =
        ([123] @ newline_indent (0 + 1) @ encode_basestring (lit ''metadata'') @ [58, 32]
         @ [123] @ newline_indent (0 + 1 + 1) @ encode_basestring (lit ''document_name'') @ [58, 32]
         @ encode_basestring (lit ''Universal Credit Act 2025'')
         @ [44] @ newline_indent (0 + 1 + 1) @ encode_basestring (lit ''analysis_date'') @ [58, 32])
        @ encode_basestring now @ ?post"
      unfolding rep dumps_obj_cons2 join_pair dumps_pairs.simps dumps.simps(4) dumps_obj_single
      by (simp only: append_assoc append_Cons append_Nil)
    then show ?thesis by (simp only: stamp_prefix append_assoc)
  qed
  then show ?thesis by blast
qed

lemma replicate_six: "replicate 6 x = [x, x, x, x, x, x]"
  by (simp add: numeral_eq_Suc)

lemma sample_bytes:
  "utf8_encode (dumps 0 (JObj (report
      (add_metadata (lit ''2025-01-01T00:00:00'') sample_accumulator sample_metadata)))) =
   Some (sample_file (lit ''2025-01-01T00:00:00''))"
  by (simp add: sample_accumulator_def sample_metadata_def sample_file_def add_metadata_def
      add_task2_result_def JSONCompiler_init_def encode_basestring_def escape_char_def
      newline_indent_def replicate_two replicate_four replicate_six int_repr_def nat_repr.simps
      utf8_char_def lit_def)

lemma sample_bytes2:
  "utf8_encode (dumps 0 (JObj (report
      (add_metadata (lit ''2026-06-30T12:00:00'') sample_accumulator sample_metadata)))) =
   Some (sample_file (lit ''2026-06-30T12:00:00''))"
  by (simp add: sample_accumulator_def sample_metadata_def sample_file_def add_metadata_def
      add_task2_result_def JSONCompiler_init_def encode_basestring_def escape_char_def
      newline_indent_def replicate_two replicate_four replicate_six int_repr_def nat_repr.simps
      utf8_char_def lit_def)

lemma utf8_encode_append_Some:
  "utf8_encode (a @ b) = Some r \<longleftrightarrow>
     (\<exists>x y. utf8_encode a = Some x \<and> utf8_encode b = Some y \<and> r = x @ y)"
  by (auto simp: utf8_encode_append split: option.splits)

lemma stamp_prefix_ascii:
  \<open>ascii (template
       [''{'',
        ''  "metadata": {'',
        ''    "document_name": "Universal Credit Act 2025",'']
     @ lit ''    "analysis_date": '')\<close>
  by (simp add: template_def lit_def ascii_def)

lemma encode_basestring_plain:
  assumes "\<forall>c \<in> set s. 32 \<le> c \<and> c \<noteq> 34 \<and> c \<noteq> 92"
  shows "encode_basestring s = [34] @ s @ [34]"
proof -
  have "concat (map escape_char s) = s" using assms
    by (induction s) (auto simp: escape_char_def)
  then show ?thesis by (simp add: encode_basestring_def)
qed

lemma stamped_files:
  assumes "reachable c"
    and "save_to_file answers1 (add_metadata now1 c pdf_metadata) path fs = (None, fs1)"
    and "save_to_file answers2 (add_metadata now2 c pdf_metadata) path fs = (None, fs2)"
  shows \<open>\<exists>stamp1 stamp2 rest.
     utf8_encode (encode_basestring now1) = Some stamp1 \<and>
     utf8_encode (encode_basestring now2) = Some stamp2 \<and>
     fs1 = fs @ [(path, Complete
       (template
         [''{'',
          ''  "metadata": {'',
          ''    "document_name": "Universal Credit Act 2025",'']
       @ lit ''    "analysis_date": '' @ stamp1 @ rest))] \<and>
     fs2 = fs @ [(path, Complete
       (template
         [''{'',
          ''  "metadata": {'',
          ''    "document_name": "Universal Credit Act 2025",'']
       @ lit ''    "analysis_date": '' @ stamp2 @ rest))]\<close>
proof -
  define pre where \<open>pre = template
         [''{'',
          ''  "metadata": {'',
          ''    "document_name": "Universal Credit Act 2025",'']
       @ lit ''    "analysis_date": ''\<close>
  from dumps_stamp [OF assms(1), of pdf_metadata] obtain post where
    d: "\<And>now. dumps 0 (JObj (report (add_metadata now c pdf_metadata))) =
          pre @ encode_basestring now @ post"
    unfolding pre_def by auto
  have p: "utf8_encode pre = Some pre"
    unfolding pre_def using stamp_prefix_ascii by (rule utf8_ascii)
  from save_to_file_cases [OF assms(2)] obtain b1 where
    b1: "utf8_encode (pre @ encode_basestring now1 @ post) = Some b1"
      "fs1 = fs @ [(path, Complete b1)]"
    unfolding d by auto
  from save_to_file_cases [OF assms(3)] obtain b2 where
    b2: "utf8_encode (pre @ encode_basestring now2 @ post) = Some b2"
      "fs2 = fs @ [(path, Complete b2)]"
    unfolding d by auto
  from b1(1) p obtain s1 r1 where
    1: "utf8_encode (encode_basestring now1) = Some s1" "utf8_encode post = Some r1"
       "b1 = pre @ s1 @ r1"
    by (auto simp: utf8_encode_append_Some)
  from b2(1) p obtain s2 r2 where
    2: "utf8_encode (encode_basestring now2) = Some s2" "utf8_encode post = Some r2"
       "b2 = pre @ s2 @ r2"
    by (auto simp: utf8_encode_append_Some)
  from 1(2) 2(2) have "r1 = r2" by simp
  with 1 2 b1(2) b2(2) show ?thesis unfolding pre_def by auto
qed

text \<open>
  C9. Saving the same accumulator twice, with no call in between, writes the same bytes
  under the same path both times, whatever the file system answers as long as both
  writes succeed: the bytes are the UTF-8 encoding of the serialisation of the report,
  which depends on the report alone. The timestamp is part of the report: the
  serialisation of an accumulator to which the metadata were added at the time \<open>now\<close>
  starts with the opening brace, the metadata key and the document name, each on a line
  of its own and indented by two spaces per level, goes on with the encoded timestamp,
  and ends with a text that does not depend on \<open>now\<close>; so the files of two accumulators
  that differ in the timestamp only are the same bytes but for the timestamp. A string
  with no quote, backslash or control character is written between quotes as it is (no
  character outside ASCII is escaped), and ASCII text is encoded as itself.
\<close>

theorem save_to_file_twice:
  \<open>(save_to_file answers1 c path fs = (None, fs1) \<and>
    save_to_file answers2 c path fs1 = (None, fs2) \<longrightarrow>
    (\<exists>b. utf8_encode (dumps 0 (JObj (report c))) = Some b \<and>
         fs1 = fs @ [(path, Complete b)] \<and>
         fs2 = fs @ [(path, Complete b), (path, Complete b)])) \<and>
   (reachable c \<longrightarrow>
    (\<exists>post. \<forall>now.
       dumps 0 (JObj (report (add_metadata now c pdf_metadata))) =
         template
           [''{'',
            ''  "metadata": {'',
            ''    "document_name": "Universal Credit Act 2025",'']
         @ lit ''    "analysis_date": '' @ encode_basestring now @ post)) \<and>
   (reachable c \<and>
    save_to_file answers1 (add_metadata now1 c pdf_metadata) path fs = (None, fs1') \<and>
    save_to_file answers2 (add_metadata now2 c pdf_metadata) path fs = (None, fs2') \<longrightarrow>
    (\<exists>stamp1 stamp2 rest.
       utf8_encode (encode_basestring now1) = Some stamp1 \<and>
       utf8_encode (encode_basestring now2) = Some stamp2 \<and>
       fs1' = fs @ [(path, Complete
         (template
           [''{'',
            ''  "metadata": {'',
            ''    "document_name": "Universal Credit Act 2025",'']
         @ lit ''    "analysis_date": '' @ stamp1 @ rest))] \<and>
       fs2' = fs @ [(path, Complete
         (template
           [''{'',
            ''  "metadata": {'',
            ''    "document_name": "Universal Credit Act 2025",'']
         @ lit ''    "analysis_date": '' @ stamp2 @ rest))])) \<and>
   ((\<forall>ch \<in> set s. 32 \<le> ch \<and> ch \<noteq> 34 \<and> ch \<noteq> 92) \<longrightarrow>
    encode_basestring s = [34] @ s @ [34]) \<and>
   (ascii s \<longrightarrow> utf8_encode s = Some s)\<close>
proof -
  have 1: "\<exists>b. utf8_encode (dumps 0 (JObj (report c))) = Some b \<and>
         fs1 = fs @ [(path, Complete b)] \<and>
         fs2 = fs @ [(path, Complete b), (path, Complete b)]"
    if "save_to_file answers1 c path fs = (None, fs1)"
      "save_to_file answers2 c path fs1 = (None, fs2)"
    using save_to_file_cases [OF that(1)] save_to_file_cases [OF that(2)] by auto
  show ?thesis
    using 1 dumps_stamp [of c pdf_metadata]
      stamped_files [of c answers1 now1 pdf_metadata path fs fs1' answers2 now2 fs2']
      encode_basestring_plain [of s] utf8_ascii [of s]
    by blast
qed

theorem save_to_file_twice_witness:
  "reachable sample_accumulator \<and>
   save_to_file (\<lambda>path. Accepts)
       (add_metadata (lit ''2025-01-01T00:00:00'') sample_accumulator sample_metadata)
       output_json [] =
     (None, [(output_json, Complete (sample_file (lit ''2025-01-01T00:00:00'')))]) \<and>
   save_to_file (\<lambda>path. Accepts)
       (add_metadata (lit ''2025-01-01T00:00:00'') sample_accumulator sample_metadata)
       output_json [(output_json, Complete (sample_file (lit ''2025-01-01T00:00:00'')))] =
     (None, [(output_json, Complete (sample_file (lit ''2025-01-01T00:00:00''))),
             (output_json, Complete (sample_file (lit ''2025-01-01T00:00:00'')))]) \<and>
   save_to_file (\<lambda>path. Accepts)
       (add_metadata (lit ''2026-06-30T12:00:00'') sample_accumulator sample_metadata)
       output_json [] =
     (None, [(output_json, Complete (sample_file (lit ''2026-06-30T12:00:00'')))])"
proof -
  let ?c = "add_metadata (lit ''2025-01-01T00:00:00'') sample_accumulator sample_metadata"
  let ?f = "sample_file (lit ''2025-01-01T00:00:00'')"
  have r: "reachable sample_accumulator"
    unfolding sample_accumulator_def by (intro reachable.task2 reachable.init)
  have 1: "save_to_file (\<lambda>path. Accepts) ?c output_json [] = (None, [(output_json, Complete ?f)])"
    by (simp add: save_to_file_def write_file_def sample_bytes del: dumps.simps)
  have "\<exists>fs2. save_to_file (\<lambda>path. Accepts) ?c output_json [(output_json, Complete ?f)]
      = (None, fs2)"
    by (simp add: save_to_file_def write_file_def sample_bytes del: dumps.simps)
  then obtain fs2 where
    2: "save_to_file (\<lambda>path. Accepts) ?c output_json [(output_json, Complete ?f)] = (None, fs2)"
    by blast
  from save_to_file_twice [of "\<lambda>path. Accepts" ?c output_json "[]"
      "[(output_json, Complete ?f)]" "\<lambda>path. Accepts" fs2] 1 2
  have "\<exists>b. [(output_json, Complete ?f)] = [] @ [(output_json, Complete b)] \<and>
      fs2 = [] @ [(output_json, Complete b), (output_json, Complete b)]"
    by blast
  then have 3: "fs2 = [(output_json, Complete ?f), (output_json, Complete ?f)]"
    by auto
  have 4: "save_to_file (\<lambda>path. Accepts)
       (add_metadata (lit ''2026-06-30T12:00:00'') sample_accumulator sample_metadata)
       output_json [] =
     (None, [(output_json, Complete (sample_file (lit ''2026-06-30T12:00:00'')))])"
    by (simp add: save_to_file_def write_file_def sample_bytes2 del: dumps.simps)
  from r 1 2 3 4 show ?thesis by simp
qed

end
